theory Spec2Isabelle
  imports Main "HOL-Library.Word"
begin

unbundle bit_operations_syntax

section \<open>Data model\<close>

text \<open>
  Go's \<^verbatim>\<open>net.IP\<close>, \<^verbatim>\<open>net.IPMask\<close> and \<^verbatim>\<open>net.HardwareAddr\<close> are byte slices. A nil
  slice is the empty list: every place where the program compares one of them with nil,
  the other possibility is a slice of 4, 6 or 16 bytes.
\<close>

type_synonym byte = "8 word"
type_synonym IP = "byte list"
type_synonym IPMask = "byte list"
type_synonym HardwareAddr = "byte list"

record IPNet =
  IP :: IP
  Mask :: IPMask

text \<open>The structs of \<^verbatim>\<open>init/types.go\<close>.\<close>

record GwInfo =
  gw_IPNet :: IPNet
  gw_MAC :: HardwareAddr

text \<open>Of \<^verbatim>\<open>netlink.Link\<close> the program reads \<^verbatim>\<open>Attrs().Name\<close> and \<^verbatim>\<open>Attrs().Index\<close>.\<close>

record Link =
  link_Name :: string
  link_Index :: int

record Iface =
  if_IPNet :: IPNet
  if_Link :: Link

record EnvConf =
  conf_nodeName :: string
  conf_vxlanIfName :: string
  conf_vtepCIDR :: IPNet
  conf_CNIConfFilePath :: string
  conf_vClusterCIDR :: IPNet
  conf_MTU :: int
  conf_bridgeName :: string
  conf_routerName :: string
  conf_lbrpName :: string
  conf_k8sDispName :: string

text \<open>
  Of a Kubernetes \<^verbatim>\<open>v1.Node\<close> the program reads \<^verbatim>\<open>Name\<close>, \<^verbatim>\<open>Spec.PodCIDR\<close> and
  \<^verbatim>\<open>Status.Addresses\<close>; \<^verbatim>\<open>v1.NodeAddressType\<close> is a string type.
\<close>

record NodeAddress =
  addr_Type :: string
  addr_Address :: string

record Node =
  node_Name :: string
  node_PodCIDR :: string
  node_Addresses :: "NodeAddress list"

definition NodeInternalIP :: string where
  "NodeInternalIP = ''InternalIP''"

record NodeInfo =
  ni_name :: string
  ni_kNode :: Node
  ni_podCIDR :: IPNet
  ni_podGwInfo :: GwInfo
  ni_extIface :: Iface
  ni_nodeVtepIPNet :: IPNet
  ni_nodeGwInfo :: GwInfo

text \<open>The netlink values the program builds or reads, with the fields it uses.\<close>

record Addr =
  addr_IPNet :: IPNet

record NlRoute =
  route_LinkIndex :: int
  route_Gw :: IP

record Neigh =
  neigh_LinkIndex :: int
  neigh_State :: int
  neigh_IP :: IP
  neigh_HardwareAddr :: HardwareAddr

definition NUD_PERMANENT :: int where
  "NUD_PERMANENT = 128"

text \<open>The router cube of the management API: \<^verbatim>\<open>router.Ports\<close>, \<^verbatim>\<open>router.Route\<close>, \<^verbatim>\<open>router.Router\<close>.\<close>

record Ports =
  port_Name :: string
  port_Ip :: string
  port_Mac :: string

record Route =
  Network :: string
  Nexthop :: string
  Interface_ :: string

record Router =
  router_Name :: string
  router_Ports :: "Ports list"
  router_Route :: "Route list"

text \<open>
  Every failure branch of the program is a value. Each branch logs at level Fatal and
  then returns an error built with \<^verbatim>\<open>fmt.Errorf\<close>; the constructors below name those
  branches, one per message. \<open>Inl e\<close> says that the function took the branch \<open>e\<close> and
  produced no result, whether the process goes on to the return statement or the logger
  ends it at the Fatal entry. \<open>Panic\<close> is a run-time panic of Go (an index out of range, a
  slice of negative length), which no caller recovers.
\<close>

datatype error =
    Panic
  | PodCIDRParseError
  | PodCIDRNotIPv4
  | RouterReadError
  | MACParseError
  | PortNotFound
  | ExtIfaceIPParseError
  | LinkListError
  | AddrListError
  | ExtIfaceNotFound
  | NodeNumberError
  | RouteGetError
  | NotSingleRoute
  | LinkIndexMismatch
  | NeighListError
  | GatewayNotFound
  | LinkByNameError
  | NeighAppendError
  | RouterRouteError
  | NodesListError
  | PeerPodCIDRError
  | PeerAddError error
  | CNIConfCreateError
  | CNIConfWriteError

section \<open>The library functions the program calls\<close>

subsection \<open>Package net: address forms\<close>

definition v4InV6Prefix :: "byte list" where
  "v4InV6Prefix = [0, 0, 0, 0, 0, 0, 0, 0, 0, 0, 255, 255]"

definition IPv4 :: "byte \<Rightarrow> byte \<Rightarrow> byte \<Rightarrow> byte \<Rightarrow> IP" where
  "IPv4 a b c d = v4InV6Prefix @ [a, b, c, d]"

definition To4 :: "IP \<Rightarrow> IP" where
  "To4 ip =
     (if length ip = 4 then ip
      else if length ip = 16 \<and> take 10 ip = replicate 10 0 \<and> ip ! 10 = 255 \<and> ip ! 11 = 255
           then drop 12 ip
      else [])"

definition To16 :: "IP \<Rightarrow> IP" where
  "To16 ip =
     (if length ip = 4 then v4InV6Prefix @ ip
      else if length ip = 16 then ip
      else [])"

definition IP_Equal :: "IP \<Rightarrow> IP \<Rightarrow> bool" where
  "IP_Equal ip x =
     (if length ip = length x then ip = x
      else if length ip = 4 \<and> length x = 16 then take 12 x = v4InV6Prefix \<and> ip = drop 12 x
      else if length ip = 16 \<and> length x = 4 then take 12 ip = v4InV6Prefix \<and> drop 12 ip = x
      else False)"

text \<open>
  The parsers and renderers of the standard library (\<^verbatim>\<open>net.ParseIP\<close>, \<^verbatim>\<open>net.ParseCIDR\<close>,
  \<^verbatim>\<open>net.ParseMAC\<close>, the \<^verbatim>\<open>String\<close> methods, \<^verbatim>\<open>url.QueryEscape\<close>) are parameters of the
  model: every statement below holds whatever they compute. \<open>ParseIP\<close> returns nil (the
  empty list) for a text it rejects; \<open>ParseCIDR\<close> and \<open>ParseMAC\<close> return \<open>None\<close> where the
  Go functions return an error.
\<close>

record netpkg =
  ParseIP :: "string \<Rightarrow> IP"
  ParseCIDR :: "string \<Rightarrow> (IP \<times> IPNet) option"
  ParseMAC :: "string \<Rightarrow> HardwareAddr option"
  IP_String :: "IP \<Rightarrow> string"
  IPNet_String :: "IPNet \<Rightarrow> string"
  HardwareAddr_String :: "HardwareAddr \<Rightarrow> string"
  QueryEscape :: "string \<Rightarrow> string"

subsection \<open>Packages strings and strconv\<close>

definition HasPrefix :: "string \<Rightarrow> string \<Rightarrow> bool" where
  "HasPrefix s prefix = (length prefix \<le> length s \<and> take (length prefix) s = prefix)"

definition TrimPrefix :: "string \<Rightarrow> string \<Rightarrow> string" where
  "TrimPrefix s prefix = (if HasPrefix s prefix then drop (length prefix) s else s)"

definition is_digit :: "char \<Rightarrow> bool" where
  "is_digit c = (48 \<le> (of_char c :: nat) \<and> (of_char c :: nat) \<le> 57)"

fun digits_val :: "int \<Rightarrow> string \<Rightarrow> int option" where
  "digits_val acc [] = Some acc"
| "digits_val acc (c # cs) =
     (if is_digit c then digits_val (acc * 10 + (int (of_char c) - 48)) cs else None)"

text \<open>
  \<^verbatim>\<open>strconv.Atoi\<close> on a 64-bit platform: an optional sign, then one or more decimal digits,
  and a value that fits \<^verbatim>\<open>int\<close>. \<open>None\<close> stands for both of its errors (syntax and range).
\<close>

definition Atoi :: "string \<Rightarrow> int option" where
  "Atoi s =
     (let neg = (s \<noteq> [] \<and> hd s = CHR ''-'');
          ds = (if s \<noteq> [] \<and> (hd s = CHR ''-'' \<or> hd s = CHR ''+'') then tl s else s)
      in if ds = [] then None
         else (case digits_val 0 ds of
                 None \<Rightarrow> None
               | Some v \<Rightarrow>
                   (let n = (if neg then - v else v)
                    in if n < - (2 ^ 63) \<or> 2 ^ 63 - 1 < n then None else Some n)))"

subsection \<open>Package math/big and the address arithmetic of containernetworking/plugins\<close>

text \<open>
  \<^verbatim>\<open>big.Int.SetBytes\<close> reads a big-endian unsigned number; \<^verbatim>\<open>big.Int.Bytes\<close> writes the
  absolute value, big-endian, with no leading zero byte (so zero is the empty slice).
\<close>

definition SetBytes :: "byte list \<Rightarrow> int" where
  "SetBytes buf = foldl (\<lambda>acc b. acc * 256 + uint b) 0 buf"

function abs_bytes :: "int \<Rightarrow> byte list" where
  "abs_bytes n = (if n \<le> 0 then [] else abs_bytes (n div 256) @ [word_of_int (n mod 256)])"
  by pat_completeness auto
termination
  by (relation "measure nat") auto

declare abs_bytes.simps [simp del]

definition Bytes :: "int \<Rightarrow> byte list" where
  "Bytes x = abs_bytes \<bar>x\<bar>"

text \<open>
  \<^verbatim>\<open>pkg/ip/cidr.go\<close> of containernetworking/plugins v1.0.1, the version \<^verbatim>\<open>go.mod\<close> requires:
  \<^verbatim>\<open>normalizeIP\<close>, \<^verbatim>\<open>intToIP\<close>, \<^verbatim>\<open>NextIP\<close> and \<^verbatim>\<open>PrevIP\<close>. \<^verbatim>\<open>intToIP\<close> pads the bytes of
  the number on the left with \<^verbatim>\<open>make([]byte, 4 - len(intBytes))\<close> (16 for IPv6), which
  panics when the number needs more bytes than the address has.
\<close>

definition normalizeIP :: "IP \<Rightarrow> IP" where
  "normalizeIP ip = (if To4 ip \<noteq> [] then To4 ip else To16 ip)"

definition intToIP :: "int \<Rightarrow> bool \<Rightarrow> error + IP" where
  "intToIP i isIPv6 =
     (let intBytes = Bytes i in
      if length intBytes = 4 \<or> length intBytes = 16 then Inr intBytes
      else if isIPv6 then
        (if 16 < length intBytes then Inl Panic
         else Inr (replicate (16 - length intBytes) 0 @ intBytes))
      else
        (if 4 < length intBytes then Inl Panic
         else Inr (replicate (4 - length intBytes) 0 @ intBytes)))"

definition NextIP :: "IP \<Rightarrow> error + IP" where
  "NextIP ip =
     (let normalizedIP = normalizeIP ip in
      if normalizedIP = [] then Inr []
      else intToIP (SetBytes normalizedIP + 1) (length normalizedIP = 16))"

definition PrevIP :: "IP \<Rightarrow> error + IP" where
  "PrevIP ip =
     (let normalizedIP = normalizeIP ip in
      if normalizedIP = [] then Inr []
      else intToIP (SetBytes normalizedIP - 1) (length normalizedIP = 16))"

section \<open>The cluster, the kernel and the management API\<close>

text \<open>
  What the program reads from and writes to. A netlink query is a table of the kernel
  and a flag telling whether the query itself returns an error (netlink then returns a nil
  slice with it). \<open>neigh_table\<close> is the neighbor table by link index: \<^verbatim>\<open>NeighList\<close> reads it
  and \<^verbatim>\<open>NeighAppend\<close> appends to it. \<open>router_routes\<close> is the route table of each router cube
  by name, to which \<^verbatim>\<open>CreateRouterRouteByID\<close> appends. A \<open>None\<close> or a flag that is true is
  a call that returns an error.
\<close>

record world =
  NodesList :: "Node list option"
  kernel_links :: "Link list"
  LinkList_err :: bool
  kernel_addrs :: "Link \<Rightarrow> Addr list"
  AddrList_err :: "Link \<Rightarrow> bool"
  route_table :: "IP \<Rightarrow> NlRoute list"
  RouteGet_err :: "IP \<Rightarrow> bool"
  neigh_table :: "int \<Rightarrow> Neigh list"
  NeighList_err :: "int \<Rightarrow> bool"
  LinkByName :: "string \<Rightarrow> Link option"
  NeighAppend_err :: "Neigh \<Rightarrow> bool"
  ReadRouterByID :: "string \<Rightarrow> Router option"
  CreateRouterRouteByID_err :: "string \<Rightarrow> string \<Rightarrow> string \<Rightarrow> Route \<Rightarrow> bool"
  router_routes :: "string \<Rightarrow> Route list"
  Create_err :: "string \<Rightarrow> bool"
  Fprintf_err :: bool

definition RouteGet :: "world \<Rightarrow> IP \<Rightarrow> NlRoute list option" where
  "RouteGet w destination =
     (if RouteGet_err w destination then None else Some (route_table w destination))"

definition NeighList :: "world \<Rightarrow> int \<Rightarrow> Neigh list option" where
  "NeighList w linkIndex =
     (if NeighList_err w linkIndex then None else Some (neigh_table w linkIndex))"

definition LinkList :: "world \<Rightarrow> Link list option" where
  "LinkList w = (if LinkList_err w then None else Some (kernel_links w))"

definition AddrList :: "world \<Rightarrow> Link \<Rightarrow> Addr list option" where
  "AddrList w link = (if AddrList_err w link then None else Some (kernel_addrs w link))"

definition NeighAppend :: "world \<Rightarrow> Neigh \<Rightarrow> world option" where
  "NeighAppend w neigh =
     (if NeighAppend_err w neigh then None
      else Some (w\<lparr>neigh_table := (neigh_table w)
                   (neigh_LinkIndex neigh := neigh_table w (neigh_LinkIndex neigh) @ [neigh])\<rparr>))"

definition CreateRouterRouteByID ::
  "world \<Rightarrow> string \<Rightarrow> string \<Rightarrow> string \<Rightarrow> Route \<Rightarrow> world option" where
  "CreateRouterRouteByID w rname network nexthop route =
     (if CreateRouterRouteByID_err w rname network nexthop route then None
      else Some (w\<lparr>router_routes := (router_routes w)
                   (rname := router_routes w rname @ [route])\<rparr>))"

section \<open>The node addressing resolver\<close>

text \<open>\<^verbatim>\<open>ParseNodePodCIDR\<close>: the pod CIDR of the node, with its address in 4-byte form.\<close>

definition ParseNodePodCIDR :: "netpkg \<Rightarrow> Node \<Rightarrow> error + IPNet" where
  "ParseNodePodCIDR net node =
     (case ParseCIDR net (node_PodCIDR node) of
        None \<Rightarrow> Inl PodCIDRParseError
      | Some (_, podCIDR) \<Rightarrow>
          (let podCIDR = podCIDR\<lparr>IP := To4 (IP podCIDR)\<rparr>
           in if IP podCIDR = [] then Inl PodCIDRNotIPv4 else Inr podCIDR))"

text \<open>
  The loop of \<^verbatim>\<open>CalcNodePodDefaultGateway\<close> over \<^verbatim>\<open>range subIP\<close>, writing into the 4-byte
  slice \<^verbatim>\<open>subBroadcastIP\<close>; an index outside the mask or outside the 4 bytes panics.
\<close>

function broadcast_loop :: "IP \<Rightarrow> IPMask \<Rightarrow> nat \<Rightarrow> IP \<Rightarrow> error + IP" where
  "broadcast_loop subIP subMask i subBroadcastIP =
     (if i < length subIP then
        (if i < length subMask \<and> i < length subBroadcastIP
         then broadcast_loop subIP subMask (Suc i)
                (subBroadcastIP[i := (subIP ! i) OR NOT (subMask ! i)])
         else Inl Panic)
      else Inr subBroadcastIP)"
  by pat_completeness auto
termination
  by (relation "measure (\<lambda>(subIP, subMask, i, b). length subIP - i)") auto

declare broadcast_loop.simps [simp del]

definition CalcNodePodDefaultGateway :: "IPNet \<Rightarrow> error + GwInfo" where
  "CalcNodePodDefaultGateway podCIDR =
     (let subIP = IP podCIDR; subMask = Mask podCIDR in
      case broadcast_loop subIP subMask 0 (replicate 4 0) of
        Inl e \<Rightarrow> Inl e
      | Inr subBroadcastIP \<Rightarrow>
          (case PrevIP subBroadcastIP of
             Inl e \<Rightarrow> Inl e
           | Inr gwIP \<Rightarrow> Inr \<lparr>gw_IPNet = \<lparr>IP = gwIP, Mask = subMask\<rparr>, gw_MAC = []\<rparr>))"

text \<open>\<^verbatim>\<open>GetRouter\<close> (\<^verbatim>\<open>init/polycube.go\<close>) and \<^verbatim>\<open>GetNodePodDefaultGatewayMAC\<close>.\<close>

definition GetRouter :: "world \<Rightarrow> string \<Rightarrow> error + Router" where
  "GetRouter w rname =
     (case ReadRouterByID w rname of None \<Rightarrow> Inl RouterReadError | Some r \<Rightarrow> Inr r)"

fun ports_loop :: "netpkg \<Rightarrow> Ports list \<Rightarrow> error + HardwareAddr" where
  "ports_loop net [] = Inl PortNotFound"
| "ports_loop net (port # rest) =
     (if port_Name port = ''to_br0'' then
        (case ParseMAC net (port_Mac port) of
           None \<Rightarrow> Inl MACParseError
         | Some routerMAC \<Rightarrow> Inr routerMAC)
      else ports_loop net rest)"

definition GetNodePodDefaultGatewayMAC :: "netpkg \<Rightarrow> EnvConf \<Rightarrow> world \<Rightarrow> error + HardwareAddr" where
  "GetNodePodDefaultGatewayMAC net conf w =
     (case GetRouter w (conf_routerName conf) of
        Inl e \<Rightarrow> Inl e
      | Inr r \<Rightarrow> ports_loop net (router_Ports r))"

text \<open>
  The loop over \<^verbatim>\<open>node.Status.Addresses\<close> that \<^verbatim>\<open>GetNodeExtIface\<close> and \<^verbatim>\<open>addOtherNodes\<close>
  share: the first address of type InternalIP, parsed; nil when there is none.
\<close>

fun internal_ip_loop :: "netpkg \<Rightarrow> NodeAddress list \<Rightarrow> IP" where
  "internal_ip_loop net [] = []"
| "internal_ip_loop net (addr # rest) =
     (if addr_Type addr = NodeInternalIP then ParseIP net (addr_Address addr)
      else internal_ip_loop net rest)"

text \<open>\<^verbatim>\<open>GetNodeExtIface\<close>: the scan of the addresses of one link, and the loop over the links.\<close>

fun addrs_loop :: "Addr list \<Rightarrow> IP \<Rightarrow> Addr option" where
  "addrs_loop [] extIfaceIP = None"
| "addrs_loop (addr # rest) extIfaceIP =
     (if IP_Equal (IP (addr_IPNet addr)) extIfaceIP then Some addr
      else addrs_loop rest extIfaceIP)"

fun links_loop :: "world \<Rightarrow> Link list \<Rightarrow> IP \<Rightarrow> error + Iface" where
  "links_loop w [] extIfaceIP = Inl ExtIfaceNotFound"
| "links_loop w (link # rest) extIfaceIP =
     (case AddrList w link of
        None \<Rightarrow> Inl AddrListError
      | Some as \<Rightarrow>
          (case addrs_loop as extIfaceIP of
             Some addr \<Rightarrow> Inr \<lparr>if_IPNet = addr_IPNet addr, if_Link = link\<rparr>
           | None \<Rightarrow> links_loop w rest extIfaceIP))"

definition GetNodeExtIface :: "netpkg \<Rightarrow> Node \<Rightarrow> world \<Rightarrow> error + Iface" where
  "GetNodeExtIface net node w =
     (let extIfaceIP = internal_ip_loop net (node_Addresses node) in
      if extIfaceIP = [] then Inl ExtIfaceIPParseError
      else (case LinkList w of
              None \<Rightarrow> Inl LinkListError
            | Some ls \<Rightarrow> links_loop w ls extIfaceIP))"

text \<open>
  \<^verbatim>\<open>CalcNodeVtepIPNet\<close>: the loop \<^verbatim>\<open>for i := 0; i < n; i++\<close> applying \<^verbatim>\<open>NextIP\<close>, and the
  function.
\<close>

function vtep_loop :: "int \<Rightarrow> int \<Rightarrow> IP \<Rightarrow> error + IP" where
  "vtep_loop i n nodeVtepIP =
     (if i < n then
        (case NextIP nodeVtepIP of
           Inl e \<Rightarrow> Inl e
         | Inr nodeVtepIP' \<Rightarrow> vtep_loop (i + 1) n nodeVtepIP')
      else Inr nodeVtepIP)"
  by pat_completeness auto
termination
  by (relation "measure (\<lambda>(i, n, ip). nat (n - i))") auto

declare vtep_loop.simps [simp del]

definition CalcNodeVtepIPNet :: "Node \<Rightarrow> IPNet \<Rightarrow> error + IPNet" where
  "CalcNodeVtepIPNet node vtepCIDR =
     (case Atoi (TrimPrefix (node_Name node) ''worker'') of
        None \<Rightarrow> Inl NodeNumberError
      | Some n \<Rightarrow>
          (case vtep_loop 0 n (IP vtepCIDR) of
             Inl e \<Rightarrow> Inl e
           | Inr nodeVtepIP \<Rightarrow> Inr \<lparr>IP = nodeVtepIP, Mask = Mask vtepCIDR\<rparr>))"

text \<open>\<^verbatim>\<open>GetNodeDefaultGateway\<close>; the probe address is \<^verbatim>\<open>net.IPv4(1, 0, 0, 0)\<close>.\<close>

fun neighs_loop :: "Neigh list \<Rightarrow> IP \<Rightarrow> Neigh option" where
  "neighs_loop [] gwIP = None"
| "neighs_loop (neigh # rest) gwIP =
     (if IP_Equal (neigh_IP neigh) gwIP then Some neigh else neighs_loop rest gwIP)"

definition GetNodeDefaultGateway :: "Iface \<Rightarrow> world \<Rightarrow> error + GwInfo" where
  "GetNodeDefaultGateway extIface w =
     (case RouteGet w (IPv4 1 0 0 0) of
        None \<Rightarrow> Inl RouteGetError
      | Some routes \<Rightarrow>
          (case routes of
             [route] \<Rightarrow>
               (let routeLI = route_LinkIndex route;
                    extIfaceLI = link_Index (if_Link extIface)
                in if routeLI \<noteq> extIfaceLI then Inl LinkIndexMismatch
                   else
                     (let gwIPNet = \<lparr>IP = route_Gw route, Mask = Mask (if_IPNet extIface)\<rparr>
                      in case NeighList w extIfaceLI of
                           None \<Rightarrow> Inl NeighListError
                         | Some neighs \<Rightarrow>
                             (case neighs_loop neighs (IP gwIPNet) of
                                Some neigh \<Rightarrow>
                                  Inr \<lparr>gw_IPNet = gwIPNet, gw_MAC = neigh_HardwareAddr neigh\<rparr>
                              | None \<Rightarrow> Inl GatewayNotFound)))
           | _ \<Rightarrow> Inl NotSingleRoute))"

section \<open>Cross-node reachability\<close>

text \<open>
  \<^verbatim>\<open>AddNode\<close> returns its error (or nil) and leaves the kernel and the router changed by the
  calls that succeeded before it returned.
\<close>

definition AddNode :: "netpkg \<Rightarrow> string \<Rightarrow> IP \<Rightarrow> IPNet \<Rightarrow> IP \<Rightarrow> world \<Rightarrow> error option \<times> world" where
  "AddNode net vxlanIfName nodeIP nodePodCIDR nodeVtepIP w =
     (case LinkByName w vxlanIfName of
        None \<Rightarrow> (Some LinkByNameError, w)
      | Some link \<Rightarrow>
          (let neigh = \<lparr>neigh_LinkIndex = link_Index link, neigh_State = NUD_PERMANENT,
                        neigh_IP = nodeIP, neigh_HardwareAddr = [0, 0, 0, 0, 0, 0]\<rparr>
           in case NeighAppend w neigh of
                None \<Rightarrow> (Some NeighAppendError, w)
              | Some w1 \<Rightarrow>
                  (let route = \<lparr>Network = IPNet_String net nodePodCIDR,
                                Nexthop = IP_String net nodeVtepIP,
                                Interface_ = ''to_vxlan0''\<rparr>
                   in case CreateRouterRouteByID w1 ''r0'' (QueryEscape net (Network route))
                             (Nexthop route) route of
                        None \<Rightarrow> (Some RouterRouteError, w1)
                      | Some w2 \<Rightarrow> (None, w2))))"

text \<open>
  \<^verbatim>\<open>addOtherNodes\<close> (\<^verbatim>\<open>init/main.go\<close>): the loop over \<^verbatim>\<open>nodes.Items\<close>, and the function. An
  error of \<^verbatim>\<open>CalcNodeVtepIPNet\<close> or \<^verbatim>\<open>AddNode\<close> is wrapped; a panic is not an error value and
  passes through.
\<close>

definition wrap_peer_error :: "error \<Rightarrow> error" where
  "wrap_peer_error e = (if e = Panic then Panic else PeerAddError e)"

fun nodes_loop :: "netpkg \<Rightarrow> EnvConf \<Rightarrow> Node list \<Rightarrow> world \<Rightarrow> error option \<times> world" where
  "nodes_loop net conf [] w = (None, w)"
| "nodes_loop net conf (node # rest) w =
     (if HasPrefix (node_Name node) ''worker'' \<and> node_Name node \<noteq> conf_nodeName conf then
        (let nodeIP = internal_ip_loop net (node_Addresses node)
         in case ParseCIDR net (node_PodCIDR node) of
              None \<Rightarrow> (Some PeerPodCIDRError, w)
            | Some (_, nodePodCIDR) \<Rightarrow>
                (case CalcNodeVtepIPNet node (conf_vtepCIDR conf) of
                   Inl e \<Rightarrow> (Some (wrap_peer_error e), w)
                 | Inr nodeVtepIPNet \<Rightarrow>
                     (case AddNode net (conf_vxlanIfName conf) nodeIP nodePodCIDR (IP nodeVtepIPNet) w of
                        (Some e, w') \<Rightarrow> (Some (wrap_peer_error e), w')
                      | (None, w') \<Rightarrow> nodes_loop net conf rest w')))
      else nodes_loop net conf rest w)"

definition addOtherNodes :: "netpkg \<Rightarrow> EnvConf \<Rightarrow> world \<Rightarrow> error option \<times> world" where
  "addOtherNodes net conf w =
     (case NodesList w of
        None \<Rightarrow> (Some NodesListError, w)
      | Some nodes \<Rightarrow> nodes_loop net conf nodes w)"

section \<open>The CNI configuration file\<close>

text \<open>
  \<^verbatim>\<open>CreateCNIConfFile\<close> (\<^verbatim>\<open>init/conf.go\<close>) fills the nine verbs of \<^verbatim>\<open>confFormat\<close>. The record
  holds the nine arguments in the order of the format: what the file says for \<^verbatim>\<open>MTU\<close>,
  \<^verbatim>\<open>vclustercidr\<close>, \<^verbatim>\<open>bridge\<close>, \<^verbatim>\<open>gateway.ip\<close>, \<^verbatim>\<open>gateway.mac\<close>, and for \<^verbatim>\<open>subnet\<close>,
  \<^verbatim>\<open>rangeStart\<close>, \<^verbatim>\<open>rangeEnd\<close> and \<^verbatim>\<open>gateway\<close> of the one IPAM range.
\<close>

record CNIConf =
  cni_MTU :: int
  cni_vclustercidr :: string
  cni_bridge :: string
  cni_gateway_ip :: string
  cni_gateway_mac :: string
  ipam_subnet :: string
  ipam_rangeStart :: string
  ipam_rangeEnd :: string
  ipam_gateway :: string

definition CreateCNIConfFile :: "netpkg \<Rightarrow> EnvConf \<Rightarrow> NodeInfo \<Rightarrow> world \<Rightarrow> error + CNIConf" where
  "CreateCNIConfFile net conf nodeInfo w =
     (if Create_err w (conf_CNIConfFilePath conf) then Inl CNIConfCreateError
      else
        (let podCIDR = ni_podCIDR nodeInfo;
             podGwIP = IP (gw_IPNet (ni_podGwInfo nodeInfo));
             podGwMAC = gw_MAC (ni_podGwInfo nodeInfo)
         in case NextIP (IP podCIDR) of
              Inl e \<Rightarrow> Inl e
            | Inr rangeStart \<Rightarrow>
                (case PrevIP podGwIP of
                   Inl e \<Rightarrow> Inl e
                 | Inr rangeEnd \<Rightarrow>
                     if Fprintf_err w then Inl CNIConfWriteError
                     else Inr \<lparr>cni_MTU = conf_MTU conf,
                               cni_vclustercidr = IPNet_String net (conf_vClusterCIDR conf),
                               cni_bridge = conf_bridgeName conf,
                               cni_gateway_ip = IP_String net podGwIP,
                               cni_gateway_mac = HardwareAddr_String net podGwMAC,
                               ipam_subnet = IPNet_String net podCIDR,
                               ipam_rangeStart = IP_String net rangeStart,
                               ipam_rangeEnd = IP_String net rangeEnd,
                               ipam_gateway = IP_String net podGwIP\<rparr>)))"

section \<open>Example values\<close>

text \<open>
  A cluster of three nodes and the state of the node worker1, on which the examples
  run. \<open>example_net\<close> gives the library parameters on the texts and addresses of the
  examples, as Go computes them there: \<^verbatim>\<open>ParseIP\<close> returns the 16-byte form, \<^verbatim>\<open>ParseCIDR\<close>
  the 4-byte network and mask of an IPv4 text, and \<^verbatim>\<open>String\<close> the dotted form of an
  address that \<^verbatim>\<open>To4\<close> accepts.
\<close>

definition ubtoa :: "byte \<Rightarrow> string" where
  "ubtoa v =
     (let n = unat v; d = (\<lambda>k. char_of (48 + k)) in
      if n < 10 then [d n]
      else if n < 100 then [d (n div 10), d (n mod 10)]
      else [d (n div 100), d ((n div 10) mod 10), d (n mod 10)])"

definition dotted :: "IP \<Rightarrow> string" where
  "dotted ip =
     (if ip = [] then ''<nil>''
      else if length (To4 ip) = 4 then
        ubtoa (To4 ip ! 0) @ ''.'' @ ubtoa (To4 ip ! 1) @ ''.'' @
        ubtoa (To4 ip ! 2) @ ''.'' @ ubtoa (To4 ip ! 3)
      else ''?'')"

definition example_net :: netpkg where
  "example_net =
     \<lparr>ParseIP = (\<lambda>s.
        if s = ''192.168.1.10'' then IPv4 192 168 1 10
        else if s = ''192.168.1.11'' then IPv4 192 168 1 11
        else if s = ''192.168.1.12'' then IPv4 192 168 1 12
        else []),
      ParseCIDR = (\<lambda>s.
        if s = ''10.10.0.0/24'' then
          Some (IPv4 10 10 0 0, \<lparr>IP = [10, 10, 0, 0], Mask = [255, 255, 255, 0]\<rparr>)
        else if s = ''10.10.1.0/24'' then
          Some (IPv4 10 10 1 0, \<lparr>IP = [10, 10, 1, 0], Mask = [255, 255, 255, 0]\<rparr>)
        else if s = ''10.10.2.0/24'' then
          Some (IPv4 10 10 2 0, \<lparr>IP = [10, 10, 2, 0], Mask = [255, 255, 255, 0]\<rparr>)
        else if s = ''fd00::/64'' then
          Some ([253, 0, 0, 0, 0, 0, 0, 0, 0, 0, 0, 0, 0, 0, 0, 0],
                \<lparr>IP = [253, 0, 0, 0, 0, 0, 0, 0, 0, 0, 0, 0, 0, 0, 0, 0],
                 Mask = [255, 255, 255, 255, 255, 255, 255, 255, 0, 0, 0, 0, 0, 0, 0, 0]\<rparr>)
        else None),
      ParseMAC = (\<lambda>s.
        if s = ''aa:bb:cc:dd:ee:ff'' then Some [170, 187, 204, 221, 238, 255] else None),
      IP_String = dotted,
      IPNet_String = (\<lambda>n. dotted (IP n) @ ''/'' @
        (if Mask n = [255, 255, 255, 0] then ''24''
         else if Mask n = [255, 255, 0, 0] then ''16''
         else if Mask n = [255, 255, 255, 254] then ''31'' else ''?'')),
      HardwareAddr_String = (\<lambda>m.
        if m = [170, 187, 204, 221, 238, 255] then ''aa:bb:cc:dd:ee:ff'' else ''''),
      QueryEscape = (\<lambda>s. concat (map (\<lambda>c. if c = CHR ''/'' then ''%2F'' else [c]) s))\<rparr>"

definition example_master :: Node where
  "example_master =
     \<lparr>node_Name = ''master'', node_PodCIDR = ''10.10.0.0/24'',
      node_Addresses = [\<lparr>addr_Type = ''Hostname'', addr_Address = ''master''\<rparr>,
                        \<lparr>addr_Type = ''InternalIP'', addr_Address = ''192.168.1.10''\<rparr>]\<rparr>"

definition example_worker1 :: Node where
  "example_worker1 =
     \<lparr>node_Name = ''worker1'', node_PodCIDR = ''10.10.1.0/24'',
      node_Addresses = [\<lparr>addr_Type = ''Hostname'', addr_Address = ''worker1''\<rparr>,
                        \<lparr>addr_Type = ''InternalIP'', addr_Address = ''192.168.1.11''\<rparr>]\<rparr>"

definition example_worker2 :: Node where
  "example_worker2 =
     \<lparr>node_Name = ''worker2'', node_PodCIDR = ''10.10.2.0/24'',
      node_Addresses = [\<lparr>addr_Type = ''InternalIP'', addr_Address = ''192.168.1.12''\<rparr>]\<rparr>"

definition example_conf :: EnvConf where
  "example_conf =
     \<lparr>conf_nodeName = ''worker1'', conf_vxlanIfName = ''vxlan0'',
      conf_vtepCIDR = \<lparr>IP = [10, 18, 0, 0], Mask = [255, 255, 0, 0]\<rparr>,
      conf_CNIConfFilePath = ''/etc/cni/net.d/00-polykube.json'',
      conf_vClusterCIDR = \<lparr>IP = [10, 10, 0, 0], Mask = [255, 255, 0, 0]\<rparr>,
      conf_MTU = 1450, conf_bridgeName = ''br0'', conf_routerName = ''r0'',
      conf_lbrpName = ''lbrp0'', conf_k8sDispName = ''k0''\<rparr>"

definition example_lo :: Link where
  "example_lo = \<lparr>link_Name = ''lo'', link_Index = 1\<rparr>"

definition example_eth0 :: Link where
  "example_eth0 = \<lparr>link_Name = ''eth0'', link_Index = 2\<rparr>"

definition example_vxlan0 :: Link where
  "example_vxlan0 = \<lparr>link_Name = ''vxlan0'', link_Index = 7\<rparr>"

definition example_router :: Router where
  "example_router =
     \<lparr>router_Name = ''r0'',
      router_Ports = [\<lparr>port_Name = ''to_vxlan0'', port_Ip = '''', port_Mac = ''''\<rparr>,
                      \<lparr>port_Name = ''to_br0'', port_Ip = ''10.10.1.254/24'',
                       port_Mac = ''aa:bb:cc:dd:ee:ff''\<rparr>],
      router_Route = []\<rparr>"

definition example_world :: world where
  "example_world =
     \<lparr>NodesList = Some [example_master, example_worker1, example_worker2],
      kernel_links = [example_lo, example_eth0, example_vxlan0],
      LinkList_err = False,
      kernel_addrs = (\<lambda>l.
        if l = example_lo then [\<lparr>addr_IPNet = \<lparr>IP = [127, 0, 0, 1], Mask = [255, 0, 0, 0]\<rparr>\<rparr>]
        else if l = example_eth0 then
          [\<lparr>addr_IPNet = \<lparr>IP = [192, 168, 1, 11], Mask = [255, 255, 255, 0]\<rparr>\<rparr>]
        else []),
      AddrList_err = (\<lambda>l. False),
      route_table = (\<lambda>d. [\<lparr>route_LinkIndex = 2, route_Gw = [192, 168, 1, 1]\<rparr>]),
      RouteGet_err = (\<lambda>d. False),
      neigh_table = (\<lambda>i.
        if i = 2 then
          [\<lparr>neigh_LinkIndex = 2, neigh_State = 2, neigh_IP = [192, 168, 1, 20],
            neigh_HardwareAddr = [2, 0, 0, 0, 0, 20]\<rparr>,
           \<lparr>neigh_LinkIndex = 2, neigh_State = 2, neigh_IP = [192, 168, 1, 1],
            neigh_HardwareAddr = [2, 0, 0, 0, 0, 1]\<rparr>]
        else []),
      NeighList_err = (\<lambda>i. False),
      LinkByName = (\<lambda>s. if s = ''vxlan0'' then Some example_vxlan0 else None),
      NeighAppend_err = (\<lambda>n. False),
      ReadRouterByID = (\<lambda>s. if s = ''r0'' then Some example_router else None),
      CreateRouterRouteByID_err = (\<lambda>rname network nexthop route. False),
      router_routes = (\<lambda>s. []),
      Create_err = (\<lambda>p. False),
      Fprintf_err = False\<rparr>"

definition example_extIface :: Iface where
  "example_extIface =
     \<lparr>if_IPNet = \<lparr>IP = [192, 168, 1, 11], Mask = [255, 255, 255, 0]\<rparr>, if_Link = example_eth0\<rparr>"

definition example_nodeInfo :: NodeInfo where
  "example_nodeInfo =
     \<lparr>ni_name = ''worker1'', ni_kNode = example_worker1,
      ni_podCIDR = \<lparr>IP = [10, 10, 1, 0], Mask = [255, 255, 255, 0]\<rparr>,
      ni_podGwInfo = \<lparr>gw_IPNet = \<lparr>IP = [10, 10, 1, 254], Mask = [255, 255, 255, 0]\<rparr>,
                      gw_MAC = [170, 187, 204, 221, 238, 255]\<rparr>,
      ni_extIface = example_extIface,
      ni_nodeVtepIPNet = \<lparr>IP = [10, 18, 0, 1], Mask = [255, 255, 0, 0]\<rparr>,
      ni_nodeGwInfo = \<lparr>gw_IPNet = \<lparr>IP = [192, 168, 1, 1], Mask = [255, 255, 255, 0]\<rparr>,
                       gw_MAC = [2, 0, 0, 0, 0, 1]\<rparr>\<rparr>"

section \<open>Facts about the library functions\<close>

lemma SetBytes_snoc: "SetBytes (xs @ [b]) = SetBytes xs * 256 + uint b"
  by (simp add: SetBytes_def)

lemma SetBytes_nonneg: "0 \<le> SetBytes xs"
  by (induction xs rule: rev_induct) (simp_all add: SetBytes_snoc SetBytes_def)

lemma uint_byte_lt: "uint (b :: byte) < 256"
  using uint_bounded [of b] by simp

lemma SetBytes_bound: "SetBytes xs < 256 ^ length xs"
proof (induction xs rule: rev_induct)
  case Nil
  show ?case by (simp add: SetBytes_def)
next
  case (snoc b xs)
  have "SetBytes xs + 1 \<le> 256 ^ length xs" using snoc by simp
  then have "(SetBytes xs + 1) * 256 \<le> 256 ^ length xs * 256" by (rule mult_right_mono) simp
  moreover have "uint b < 256" by (rule uint_byte_lt)
  ultimately show ?case by (simp add: SetBytes_snoc algebra_simps)
qed

lemma SetBytes_zeros: "SetBytes (replicate k 0 @ xs) = SetBytes xs"
proof -
  have "foldl (\<lambda>acc b. acc * 256 + uint (b::byte)) 0 (replicate k 0) = 0"
    by (induction k) simp_all
  then show ?thesis by (simp add: SetBytes_def)
qed

lemma uint_byte_of_mod: "uint (word_of_int (n mod 256) :: byte) = n mod 256"
  by (simp add: uint_word_of_int)

lemma abs_bytes_nonpos: "n \<le> 0 \<Longrightarrow> abs_bytes n = []"
  by (subst abs_bytes.simps) simp

lemma abs_bytes_pos:
  "0 < n \<Longrightarrow> abs_bytes n = abs_bytes (n div 256) @ [word_of_int (n mod 256)]"
  by (subst abs_bytes.simps) simp

lemma SetBytes_abs_bytes: "0 \<le> n \<Longrightarrow> SetBytes (abs_bytes n) = n"
proof (induction n rule: abs_bytes.induct)
  case (1 n)
  show ?case
  proof (cases "n \<le> 0")
    case True
    with 1 show ?thesis by (simp add: abs_bytes_nonpos SetBytes_def)
  next
    case False
    then have "SetBytes (abs_bytes (n div 256)) = n div 256" using 1 by simp
    with False show ?thesis
      by (simp add: abs_bytes_pos SetBytes_snoc uint_byte_of_mod)
  qed
qed

lemma length_abs_bytes: "n < 256 ^ k \<Longrightarrow> length (abs_bytes n) \<le> k"
proof (induction k arbitrary: n)
  case 0
  then have "n \<le> 0" by simp
  then show ?case by (simp add: abs_bytes_nonpos)
next
  case (Suc k)
  show ?case
  proof (cases "n \<le> 0")
    case True
    then show ?thesis by (simp add: abs_bytes_nonpos)
  next
    case False
    have "n div 256 < 256 ^ k"
    proof -
      define X :: int where "X = 256 ^ k"
      have "n < 256 * X" using Suc.prems by (simp add: X_def)
      then have "n div 256 < X" by linarith
      then show ?thesis by (simp add: X_def)
    qed
    then have "length (abs_bytes (n div 256)) \<le> k" by (rule Suc.IH)
    with False show ?thesis by (simp add: abs_bytes_pos)
  qed
qed

lemma SetBytes_inj: "length xs = length ys \<Longrightarrow> SetBytes xs = SetBytes ys \<Longrightarrow> xs = ys"
proof (induction xs arbitrary: ys rule: rev_induct)
  case Nil
  then show ?case by simp
next
  case (snoc b xs)
  then obtain c zs where ys: "ys = zs @ [c]"
    by (metis length_0_conv rev_exhaust snoc_eq_iff_butlast)
  with snoc.prems have len: "length xs = length zs"
    and eq: "SetBytes xs * 256 + uint b = SetBytes zs * 256 + uint c"
    by (simp_all add: SetBytes_snoc)
  have b: "0 \<le> uint b" "uint b < 256" "0 \<le> uint c" "uint c < 256"
    by (simp_all add: uint_byte_lt)
  have "(SetBytes xs * 256 + uint b) div 256 = SetBytes xs"
    "(SetBytes zs * 256 + uint c) div 256 = SetBytes zs"
    using b by simp_all
  with eq have "SetBytes xs = SetBytes zs" by simp
  with eq have "uint b = uint c" by simp
  with \<open>SetBytes xs = SetBytes zs\<close> have "SetBytes xs = SetBytes zs" "b = c"
    by (simp_all add: word_uint_eq_iff)
  with len snoc.IH ys show ?case by simp
qed


lemma To4_len4: "length ip = 4 \<Longrightarrow> To4 ip = ip"
  by (simp add: To4_def)

lemma normalizeIP_len4: "length ip = 4 \<Longrightarrow> normalizeIP ip = ip"
  by (auto simp: normalizeIP_def To4_def)

lemma length_To4: "To4 ip \<noteq> [] \<Longrightarrow> length (To4 ip) = 4"
  by (auto simp: To4_def split: if_splits)

lemma intToIP_v4:
  assumes "\<bar>i\<bar> < 2 ^ 32"
  shows "\<exists>r. intToIP i False = Inr r \<and> length r = 4 \<and> SetBytes r = \<bar>i\<bar>"
proof -
  have "\<bar>i\<bar> < 256 ^ 4" using assms by simp
  then have len: "length (abs_bytes \<bar>i\<bar>) \<le> 4" by (rule length_abs_bytes)
  have val: "SetBytes (abs_bytes \<bar>i\<bar>) = \<bar>i\<bar>" by (rule SetBytes_abs_bytes) simp
  from len val show ?thesis
    by (auto simp: intToIP_def Bytes_def Let_def SetBytes_zeros)
qed

lemma SetBytes_len4_bound:
  assumes "length ip = 4"
  shows "SetBytes ip < 2 ^ 32"
proof -
  have "SetBytes ip < 256 ^ length ip" by (rule SetBytes_bound)
  then have "SetBytes ip < 256 ^ 4" by (simp only: assms)
  then show ?thesis by simp
qed

lemma PrevIP_v4:
  assumes "length ip = 4"
  shows "\<exists>r. PrevIP ip = Inr r \<and> length r = 4 \<and> SetBytes r = \<bar>SetBytes ip - 1\<bar>"
proof -
  have "0 \<le> SetBytes ip" "SetBytes ip < 2 ^ 32"
    using SetBytes_nonneg [of ip] SetBytes_len4_bound [OF assms] by simp_all
  then have "\<bar>SetBytes ip - 1\<bar> < 2 ^ 32" by simp
  from intToIP_v4 [OF this] assms show ?thesis
    by (auto simp: PrevIP_def normalizeIP_len4 Let_def)
qed

lemma NextIP_v4:
  assumes "length ip = 4" and "SetBytes ip + 1 < 2 ^ 32"
  shows "\<exists>r. NextIP ip = Inr r \<and> length r = 4 \<and> SetBytes r = SetBytes ip + 1"
proof -
  have "0 \<le> SetBytes ip" by (rule SetBytes_nonneg)
  with assms have "\<bar>SetBytes ip + 1\<bar> < 2 ^ 32" by simp
  from intToIP_v4 [OF this] assms \<open>0 \<le> SetBytes ip\<close> show ?thesis
    by (auto simp: NextIP_def normalizeIP_len4 Let_def)
qed

lemma NextIP_v4_overflow:
  assumes "length ip = 4" and "\<not> SetBytes ip + 1 < 2 ^ 32"
  shows "NextIP ip = Inl Panic"
proof -
  have "SetBytes ip < 2 ^ 32" using assms(1) by (rule SetBytes_len4_bound)
  with assms(2) have v: "SetBytes ip + 1 = 4294967296" by simp
  have "abs_bytes 4294967296 = [1, 0, 0, 0, 0]"
    by (simp add: abs_bytes_pos abs_bytes_nonpos)
  with v assms(1) show ?thesis
    by (auto simp: NextIP_def normalizeIP_len4 Let_def intToIP_def Bytes_def)
qed

lemma len4E:
  assumes "length xs = 4"
  obtains a b c d where "xs = [a, b, c, d]"
  using assms by (auto simp: length_Suc_conv numeral_eq_Suc)

lemma ge4E:
  assumes "4 \<le> length xs"
  obtains a b c d r where "xs = a # b # c # d # r"
  using assms by (auto simp: numeral_eq_Suc Suc_le_length_iff)

lemma broadcast_loop_v4:
  assumes "length subIP = 4" and "4 \<le> length subMask"
  shows "broadcast_loop subIP subMask 0 (replicate 4 0) =
           Inr (map2 (\<lambda>a m. a OR NOT m) subIP subMask)"
proof -
  from assms(1) obtain a b c d where s: "subIP = [a, b, c, d]" by (rule len4E)
  from assms(2) obtain m0 m1 m2 m3 r where m: "subMask = m0 # m1 # m2 # m3 # r" by (rule ge4E)
  have r: "replicate 4 (0::byte) = [0, 0, 0, 0]" by (simp add: numeral_eq_Suc)
  show ?thesis
    unfolding s m r
    by (simp add: broadcast_loop.simps numeral_2_eq_2 numeral_3_eq_3)
qed

lemma length_broadcast:
  "length subIP = 4 \<Longrightarrow> 4 \<le> length subMask \<Longrightarrow>
   length (map2 (\<lambda>a m. a OR NOT m) subIP subMask) = 4"
  by simp

lemma CalcNodePodDefaultGateway_v4:
  assumes "length (IP podCIDR) = 4" and "4 \<le> length (Mask podCIDR)"
  shows "\<exists>gwIP. CalcNodePodDefaultGateway podCIDR =
             Inr \<lparr>gw_IPNet = \<lparr>IP = gwIP, Mask = Mask podCIDR\<rparr>, gw_MAC = []\<rparr> \<and>
           length gwIP = 4 \<and>
           SetBytes gwIP =
             \<bar>SetBytes (map2 (\<lambda>a m. a OR NOT m) (IP podCIDR) (Mask podCIDR)) - 1\<bar>"
proof -
  let ?b = "map2 (\<lambda>a m. a OR NOT m) (IP podCIDR) (Mask podCIDR)"
  have "length ?b = 4" using assms by (rule length_broadcast)
  from PrevIP_v4 [OF this] obtain r where
    "PrevIP ?b = Inr r" "length r = 4" "SetBytes r = \<bar>SetBytes ?b - 1\<bar>" by blast
  with broadcast_loop_v4 [OF assms] show ?thesis
    by (simp add: CalcNodePodDefaultGateway_def Let_def)
qed

lemma SetBytes_pos:
  assumes "length b = 4" and "b \<noteq> [0, 0, 0, 0]"
  shows "1 \<le> SetBytes b"
proof (rule ccontr)
  assume "\<not> 1 \<le> SetBytes b"
  with SetBytes_nonneg [of b] have "SetBytes b = 0" by simp
  then have "SetBytes b = SetBytes [0, 0, 0, 0]" by (simp add: SetBytes_def)
  with assms(1) have "b = [0, 0, 0, 0]" by (intro SetBytes_inj) simp_all
  with assms(2) show False by simp
qed

section \<open>The pod gateway\<close>

text \<open>
  C10. \<^verbatim>\<open>CalcNodePodDefaultGateway\<close> returns no error and does not panic on a pod CIDR whose
  address has 4 bytes and whose mask has at least 4 (the mask of an IPv4 CIDR has exactly
  4), and the \<open>GwInfo\<close> it returns has a nil MAC: the link-layer address is filled in
  later.
\<close>

theorem CalcNodePodDefaultGateway_returns_nil_MAC:
  assumes "length (IP podCIDR) = 4" and "4 \<le> length (Mask podCIDR)"
  shows "\<exists>gwInfo. CalcNodePodDefaultGateway podCIDR = Inr gwInfo \<and> gw_MAC gwInfo = []"
  using CalcNodePodDefaultGateway_v4 [OF assms] by auto

theorem CalcNodePodDefaultGateway_returns_nil_MAC_witness:
  "length (IP \<lparr>IP = [10, 10, 3, 0], Mask = [255, 255, 255, 0]\<rparr>) = 4 \<and>
   4 \<le> length (Mask \<lparr>IP = [10, 10, 3, 0], Mask = [255, 255, 255, 0]\<rparr>) \<and>
   (\<exists>gwInfo. CalcNodePodDefaultGateway \<lparr>IP = [10, 10, 3, 0], Mask = [255, 255, 255, 0]\<rparr> =
        Inr gwInfo \<and> gw_MAC gwInfo = [])"
  using CalcNodePodDefaultGateway_returns_nil_MAC
          [of "\<lparr>IP = [10, 10, 3, 0], Mask = [255, 255, 255, 0]\<rparr>"]
  by simp

text \<open>
  C1, as stated: for every IPv4 pod CIDR the gateway is the broadcast address minus one.
  It fails at the CIDR 0.0.0.0/32, whose broadcast address is 0.0.0.0: \<^verbatim>\<open>PrevIP\<close> computes
  \<open>0 - 1\<close> on a \<^verbatim>\<open>big.Int\<close> and writes the absolute value of the result, so the gateway is
  0.0.0.1, which is the broadcast address plus one.
\<close>

theorem CalcNodePodDefaultGateway_zero_counterexample:
  "CalcNodePodDefaultGateway \<lparr>IP = [0, 0, 0, 0], Mask = [255, 255, 255, 255]\<rparr> =
     Inr \<lparr>gw_IPNet = \<lparr>IP = [0, 0, 0, 1], Mask = [255, 255, 255, 255]\<rparr>, gw_MAC = []\<rparr> \<and>
   SetBytes [0, 0, 0, 1] \<noteq>
     SetBytes (map2 (\<lambda>a m. a OR NOT m) [0, 0, 0, 0] [255, 255, 255, 255]) - 1"
  by code_simp

text \<open>
  C1, amended: for every IPv4 pod CIDR (a 4-byte address and a 4-byte mask) whose
  broadcast address (the address OR-ed with the complement of the mask) is not 0.0.0.0,
  \<^verbatim>\<open>CalcNodePodDefaultGateway\<close> returns a \<open>GwInfo\<close> whose address is a 4-byte address equal,
  as a number, to the broadcast address minus one, with the mask of the input CIDR.
  The witness is the pod CIDR 10.10.3.0/24, which gives 10.10.3.254/24.
\<close>

theorem CalcNodePodDefaultGateway_broadcast_minus_one:
  assumes "length (IP podCIDR) = 4" and "length (Mask podCIDR) = 4"
    and "map2 (\<lambda>a m. a OR NOT m) (IP podCIDR) (Mask podCIDR) \<noteq> [0, 0, 0, 0]"
  shows "\<exists>gwIP. CalcNodePodDefaultGateway podCIDR =
             Inr \<lparr>gw_IPNet = \<lparr>IP = gwIP, Mask = Mask podCIDR\<rparr>, gw_MAC = []\<rparr> \<and>
           length gwIP = 4 \<and>
           SetBytes gwIP =
             SetBytes (map2 (\<lambda>a m. a OR NOT m) (IP podCIDR) (Mask podCIDR)) - 1"
proof -
  let ?b = "map2 (\<lambda>a m. a OR NOT m) (IP podCIDR) (Mask podCIDR)"
  have "length ?b = 4" using assms(1,2) by simp
  then have "1 \<le> SetBytes ?b" using assms(3) by (rule SetBytes_pos)
  then have "\<bar>SetBytes ?b - 1\<bar> = SetBytes ?b - 1" by simp
  moreover have "4 \<le> length (Mask podCIDR)" using assms(2) by simp
  ultimately show ?thesis
    using CalcNodePodDefaultGateway_v4 [OF assms(1), of] by auto
qed

theorem CalcNodePodDefaultGateway_broadcast_minus_one_witness:
  "CalcNodePodDefaultGateway \<lparr>IP = [10, 10, 3, 0], Mask = [255, 255, 255, 0]\<rparr> =
     Inr \<lparr>gw_IPNet = \<lparr>IP = [10, 10, 3, 254], Mask = [255, 255, 255, 0]\<rparr>, gw_MAC = []\<rparr>"
proof -
  let ?c = "\<lparr>IP = [10, 10, 3, 0], Mask = [255, 255, 255, 0]\<rparr>"
  have "\<exists>gwIP. CalcNodePodDefaultGateway ?c =
             Inr \<lparr>gw_IPNet = \<lparr>IP = gwIP, Mask = Mask ?c\<rparr>, gw_MAC = []\<rparr> \<and>
           length gwIP = 4 \<and>
           SetBytes gwIP = SetBytes (map2 (\<lambda>a m. a OR NOT m) (IP ?c) (Mask ?c)) - 1"
    by (rule CalcNodePodDefaultGateway_broadcast_minus_one) simp_all
  then obtain gwIP where r:
    "CalcNodePodDefaultGateway ?c = Inr \<lparr>gw_IPNet = \<lparr>IP = gwIP, Mask = Mask ?c\<rparr>, gw_MAC = []\<rparr>"
    "length gwIP = 4"
    "SetBytes gwIP = SetBytes (map2 (\<lambda>a m. a OR NOT m) (IP ?c) (Mask ?c)) - 1"
    by blast
  have b: "map2 (\<lambda>a m. a OR NOT m) (IP ?c) (Mask ?c) = [10, 10, 3, 255]"
    by code_simp
  from r(3) have "SetBytes gwIP = SetBytes [10, 10, 3, 255] - 1" by (simp only: b)
  then have "SetBytes gwIP = SetBytes [10, 10, 3, 254]" by (simp add: SetBytes_def)
  with r(2) have "gwIP = [10, 10, 3, 254]" by (intro SetBytes_inj) simp_all
  with r(1) show ?thesis by simp
qed

section \<open>The VTEP address\<close>

lemma vtep_loop_done: "n \<le> i \<Longrightarrow> vtep_loop i n ip = Inr ip"
  by (subst vtep_loop.simps) simp

lemma vtep_loop_v4:
  "length ip = 4 \<Longrightarrow> i \<le> n \<Longrightarrow> SetBytes ip + (n - i) < 2 ^ 32 \<Longrightarrow>
   \<exists>r. vtep_loop i n ip = Inr r \<and> length r = 4 \<and> SetBytes r = SetBytes ip + (n - i)"
proof (induction i n ip rule: vtep_loop.induct)
  case (1 i n ip)
  show ?case
  proof (cases "i < n")
    case False
    with "1.prems" show ?thesis by (simp add: vtep_loop_done)
  next
    case True
    have "0 \<le> SetBytes ip" by (rule SetBytes_nonneg)
    with True "1.prems" have "SetBytes ip + 1 < 2 ^ 32" by simp
    with "1.prems"(1) obtain ip' where
      n: "NextIP ip = Inr ip'" "length ip' = 4" "SetBytes ip' = SetBytes ip + 1"
      using NextIP_v4 by blast
    from True "1.prems" n have "SetBytes ip' + (n - (i + 1)) < 2 ^ 32" by simp
    with "1.IH" [OF True n(1) n(2)] True obtain r where
      "vtep_loop (i + 1) n ip' = Inr r" "length r = 4"
      "SetBytes r = SetBytes ip' + (n - (i + 1))" by auto
    with True n show ?thesis
      by (subst vtep_loop.simps) simp
  qed
qed

lemma TrimPrefix_worker: "TrimPrefix (''worker'' @ s) ''worker'' = s"
  by (simp add: TrimPrefix_def HasPrefix_def)

lemma digits_val_all_digits: "digits_val acc ds = Some v \<Longrightarrow> list_all is_digit ds"
  by (induction ds arbitrary: acc) (auto split: if_splits)

lemma Atoi_Some_decimal:
  assumes "Atoi s = Some n"
  shows "\<exists>sign ds. s = sign @ ds \<and> (sign = [] \<or> sign = ''+'' \<or> sign = ''-'') \<and>
           ds \<noteq> [] \<and> list_all is_digit ds"
proof (cases "s \<noteq> [] \<and> (hd s = CHR ''-'' \<or> hd s = CHR ''+'')")
  case True
  with assms have "tl s \<noteq> []" and "\<exists>v. digits_val 0 (tl s) = Some v"
    by (auto simp: Atoi_def Let_def split: if_splits option.splits)
  then have "tl s \<noteq> []" and "list_all is_digit (tl s)"
    by (auto dest: digits_val_all_digits)
  moreover from True have "s = [hd s] @ tl s" by simp
  ultimately show ?thesis using True
    by (metis (no_types, lifting))
next
  case False
  with assms have "s \<noteq> []" and "\<exists>v. digits_val 0 s = Some v"
    by (auto simp: Atoi_def Let_def split: if_splits option.splits)
  then have "s = [] @ s" "s \<noteq> []" "list_all is_digit s"
    by (auto dest: digits_val_all_digits)
  then show ?thesis by blast
qed

lemma CalcNodeVtepIPNet_v4:
  assumes "node_Name node = ''worker'' @ s" and "Atoi s = Some n" and "0 \<le> n"
    and "length (IP pool) = 4" and "SetBytes (IP pool) + n < 2 ^ 32"
  shows "\<exists>ip. CalcNodeVtepIPNet node pool = Inr \<lparr>IP = ip, Mask = Mask pool\<rparr> \<and>
           length ip = 4 \<and> SetBytes ip = SetBytes (IP pool) + n"
proof -
  from vtep_loop_v4 [of "IP pool" 0 n] assms(3,4,5) obtain r where
    "vtep_loop 0 n (IP pool) = Inr r" "length r = 4" "SetBytes r = SetBytes (IP pool) + n"
    by auto
  moreover have "TrimPrefix (node_Name node) ''worker'' = s"
    by (simp only: assms(1) TrimPrefix_worker)
  ultimately show ?thesis
    using assms(2) by (simp add: CalcNodeVtepIPNet_def)
qed

text \<open>
  C2, as stated: for a node named workerN the result is the pool base advanced by N
  addresses. It fails where the pool base plus N passes 255.255.255.255: \<^verbatim>\<open>NextIP\<close> panics
  there. The pool 255.255.255.252/30 and the node worker4 are such an input.
\<close>

theorem CalcNodeVtepIPNet_overflow_counterexample:
  "CalcNodeVtepIPNet \<lparr>node_Name = ''worker4'', node_PodCIDR = ''10.10.4.0/24'', node_Addresses = []\<rparr>
     \<lparr>IP = [255, 255, 255, 252], Mask = [255, 255, 255, 252]\<rparr> = Inl Panic"
  by code_simp

text \<open>
  C2, amended. For a node named \<open>worker\<close> followed by a text that \<^verbatim>\<open>Atoi\<close> reads as
  \<open>n \<ge> 0\<close>, and an IPv4 pool whose base plus \<open>n\<close> does not pass 255.255.255.255,
  \<^verbatim>\<open>CalcNodeVtepIPNet\<close> returns the 4-byte address that is the pool base plus \<open>n\<close>, with the
  mask of the pool; for two such nodes the one with the larger number gets the larger
  address; the result depends on the node only through its name; and for every node name
  whose remainder after the prefix \<open>worker\<close> is not an optional sign followed by one or more
  decimal digits, the function fails with the error of the node number.
\<close>

theorem CalcNodeVtepIPNet_ordinal:
  "(node_Name node = ''worker'' @ s \<and> Atoi s = Some n \<and> 0 \<le> n \<and>
      length (IP pool) = 4 \<and> SetBytes (IP pool) + n < 2 ^ 32 \<longrightarrow>
      (\<exists>ip. CalcNodeVtepIPNet node pool = Inr \<lparr>IP = ip, Mask = Mask pool\<rparr> \<and>
            length ip = 4 \<and> SetBytes ip = SetBytes (IP pool) + n)) \<and>
   (node_Name node = ''worker'' @ s \<and> Atoi s = Some n \<and> 0 \<le> n \<and>
      node_Name node' = ''worker'' @ s' \<and> Atoi s' = Some n' \<and> n < n' \<and>
      length (IP pool) = 4 \<and> SetBytes (IP pool) + n' < 2 ^ 32 \<longrightarrow>
      (\<exists>r r'. CalcNodeVtepIPNet node pool = Inr r \<and> CalcNodeVtepIPNet node' pool = Inr r' \<and>
            SetBytes (IP r) < SetBytes (IP r'))) \<and>
   (node_Name node = node_Name node' \<longrightarrow>
      CalcNodeVtepIPNet node pool = CalcNodeVtepIPNet node' pool) \<and>
   (\<not> (\<exists>sign ds. TrimPrefix (node_Name node) ''worker'' = sign @ ds \<and>
          (sign = [] \<or> sign = ''+'' \<or> sign = ''-'') \<and> ds \<noteq> [] \<and> list_all is_digit ds) \<longrightarrow>
      CalcNodeVtepIPNet node pool = Inl NodeNumberError)"
proof (intro conjI impI)
  assume "node_Name node = ''worker'' @ s \<and> Atoi s = Some n \<and> 0 \<le> n \<and>
      length (IP pool) = 4 \<and> SetBytes (IP pool) + n < 2 ^ 32"
  then show "\<exists>ip. CalcNodeVtepIPNet node pool = Inr \<lparr>IP = ip, Mask = Mask pool\<rparr> \<and>
            length ip = 4 \<and> SetBytes ip = SetBytes (IP pool) + n"
    using CalcNodeVtepIPNet_v4 by blast
next
  assume a: "node_Name node = ''worker'' @ s \<and> Atoi s = Some n \<and> 0 \<le> n \<and>
      node_Name node' = ''worker'' @ s' \<and> Atoi s' = Some n' \<and> n < n' \<and>
      length (IP pool) = 4 \<and> SetBytes (IP pool) + n' < 2 ^ 32"
  then have "\<exists>ip. CalcNodeVtepIPNet node pool = Inr \<lparr>IP = ip, Mask = Mask pool\<rparr> \<and>
            length ip = 4 \<and> SetBytes ip = SetBytes (IP pool) + n"
    by (intro CalcNodeVtepIPNet_v4 [of node s n pool]) simp_all
  moreover from a have "\<exists>ip. CalcNodeVtepIPNet node' pool = Inr \<lparr>IP = ip, Mask = Mask pool\<rparr> \<and>
            length ip = 4 \<and> SetBytes ip = SetBytes (IP pool) + n'"
    by (intro CalcNodeVtepIPNet_v4 [of node' s' n' pool]) simp_all
  ultimately show "\<exists>r r'. CalcNodeVtepIPNet node pool = Inr r \<and>
      CalcNodeVtepIPNet node' pool = Inr r' \<and> SetBytes (IP r) < SetBytes (IP r')"
    using a by auto
next
  assume "node_Name node = node_Name node'"
  then show "CalcNodeVtepIPNet node pool = CalcNodeVtepIPNet node' pool"
    by (simp add: CalcNodeVtepIPNet_def)
next
  assume n: "\<not> (\<exists>sign ds. TrimPrefix (node_Name node) ''worker'' = sign @ ds \<and>
          (sign = [] \<or> sign = ''+'' \<or> sign = ''-'') \<and> ds \<noteq> [] \<and> list_all is_digit ds)"
  have "Atoi (TrimPrefix (node_Name node) ''worker'') = None"
  proof (cases "Atoi (TrimPrefix (node_Name node) ''worker'')")
    case None
    then show ?thesis .
  next
    case (Some m)
    from Atoi_Some_decimal [OF this] n show ?thesis by blast
  qed
  then show "CalcNodeVtepIPNet node pool = Inl NodeNumberError"
    by (simp add: CalcNodeVtepIPNet_def)
qed

theorem CalcNodeVtepIPNet_ordinal_witness:
  "CalcNodeVtepIPNet \<lparr>node_Name = ''worker3'', node_PodCIDR = ''10.10.3.0/24'', node_Addresses = []\<rparr>
      \<lparr>IP = [10, 18, 0, 0], Mask = [255, 255, 0, 0]\<rparr> =
     Inr \<lparr>IP = [10, 18, 0, 3], Mask = [255, 255, 0, 0]\<rparr> \<and>
   (\<exists>r r'.
      CalcNodeVtepIPNet \<lparr>node_Name = ''worker3'', node_PodCIDR = ''10.10.3.0/24'', node_Addresses = []\<rparr>
        \<lparr>IP = [10, 18, 0, 0], Mask = [255, 255, 0, 0]\<rparr> = Inr r \<and>
      CalcNodeVtepIPNet \<lparr>node_Name = ''worker4'', node_PodCIDR = ''10.10.4.0/24'', node_Addresses = []\<rparr>
        \<lparr>IP = [10, 18, 0, 0], Mask = [255, 255, 0, 0]\<rparr> = Inr r' \<and>
      SetBytes (IP r) < SetBytes (IP r')) \<and>
   CalcNodeVtepIPNet \<lparr>node_Name = ''worker3'', node_PodCIDR = ''10.10.3.0/24'', node_Addresses = []\<rparr>
      \<lparr>IP = [10, 18, 0, 0], Mask = [255, 255, 0, 0]\<rparr> =
     CalcNodeVtepIPNet \<lparr>node_Name = ''worker3'', node_PodCIDR = '''', node_Addresses = []\<rparr>
      \<lparr>IP = [10, 18, 0, 0], Mask = [255, 255, 0, 0]\<rparr> \<and>
   CalcNodeVtepIPNet \<lparr>node_Name = ''master'', node_PodCIDR = ''10.10.0.0/24'', node_Addresses = []\<rparr>
      \<lparr>IP = [10, 18, 0, 0], Mask = [255, 255, 0, 0]\<rparr> = Inl NodeNumberError"
proof -
  let ?pool = "\<lparr>IP = [10, 18, 0, 0], Mask = [255, 255, 0, 0]\<rparr>"
  let ?w3 = "\<lparr>node_Name = ''worker3'', node_PodCIDR = ''10.10.3.0/24'', node_Addresses = []\<rparr>"
  let ?w3' = "\<lparr>node_Name = ''worker3'', node_PodCIDR = '''', node_Addresses = []\<rparr>"
  let ?w4 = "\<lparr>node_Name = ''worker4'', node_PodCIDR = ''10.10.4.0/24'', node_Addresses = []\<rparr>"
  let ?m = "\<lparr>node_Name = ''master'', node_PodCIDR = ''10.10.0.0/24'', node_Addresses = []\<rparr>"
  have a3: "Atoi ''3'' = Some 3" and a4: "Atoi ''4'' = Some 4"
    by (simp_all add: Atoi_def is_digit_def)
  have v: "SetBytes [10, 18, 0, 0] = 168951808" by (simp add: SetBytes_def)
  note T = CalcNodeVtepIPNet_ordinal [of ?w3 "''3''" 3 ?pool ?w4 "''4''" 4]
  note U = CalcNodeVtepIPNet_ordinal [of ?w3 "''3''" 3 ?pool ?w3' "''3''" 3]
  note M = CalcNodeVtepIPNet_ordinal [of ?m "''3''" 3 ?pool ?m "''3''" 3]
  have "\<exists>ip. CalcNodeVtepIPNet ?w3 ?pool = Inr \<lparr>IP = ip, Mask = Mask ?pool\<rparr> \<and>
            length ip = 4 \<and> SetBytes ip = SetBytes (IP ?pool) + 3"
    by (rule T [THEN conjunct1, THEN mp]) (simp add: a3 v)
  then obtain ip where r:
    "CalcNodeVtepIPNet ?w3 ?pool = Inr \<lparr>IP = ip, Mask = Mask ?pool\<rparr>"
    "length ip = 4" "SetBytes ip = SetBytes (IP ?pool) + 3"
    by blast
  from r(3) have "SetBytes ip = SetBytes [10, 18, 0, 3]" by (simp add: SetBytes_def)
  with r(2) have "ip = [10, 18, 0, 3]" by (intro SetBytes_inj) simp_all
  with r(1) have c1: "CalcNodeVtepIPNet ?w3 ?pool = Inr \<lparr>IP = [10, 18, 0, 3], Mask = [255, 255, 0, 0]\<rparr>"
    by simp
  have c2: "\<exists>r r'. CalcNodeVtepIPNet ?w3 ?pool = Inr r \<and> CalcNodeVtepIPNet ?w4 ?pool = Inr r' \<and>
      SetBytes (IP r) < SetBytes (IP r')"
    by (rule T [THEN conjunct2, THEN conjunct1, THEN mp]) (simp add: a3 a4 v)
  have c3: "CalcNodeVtepIPNet ?w3 ?pool = CalcNodeVtepIPNet ?w3' ?pool"
    by (rule U [THEN conjunct2, THEN conjunct2, THEN conjunct1, THEN mp]) simp
  have t: "TrimPrefix (node_Name ?m) ''worker'' = ''master''"
    by (simp add: TrimPrefix_def HasPrefix_def)
  have n: "\<not> (\<exists>sign ds. TrimPrefix (node_Name ?m) ''worker'' = sign @ ds \<and>
          (sign = [] \<or> sign = ''+'' \<or> sign = ''-'') \<and> ds \<noteq> [] \<and> list_all is_digit ds)"
    unfolding t by (auto simp: is_digit_def)
  have c4: "CalcNodeVtepIPNet ?m ?pool = Inl NodeNumberError"
    by (rule M [THEN conjunct2, THEN conjunct2, THEN conjunct2, THEN mp]) (rule n)
  from c1 c2 c3 c4 show ?thesis by blast
qed

section \<open>The pod CIDR and the MAC of the pod gateway\<close>

text \<open>
  C8. \<^verbatim>\<open>ParseNodePodCIDR\<close> returns an error, and no CIDR, for every node whose pod CIDR text
  \<^verbatim>\<open>ParseCIDR\<close> rejects, and for every node whose parsed network address has no IPv4 form
  (\<^verbatim>\<open>To4\<close> returns nil); when it returns a CIDR, the address of that CIDR has 4 bytes and
  is the IPv4 form of the parsed network address.
\<close>

theorem ParseNodePodCIDR_IPv4_only:
  "(ParseCIDR net (node_PodCIDR node) = None \<longrightarrow>
      ParseNodePodCIDR net node = Inl PodCIDRParseError) \<and>
   (ParseCIDR net (node_PodCIDR node) = Some (ip, cidr) \<and> To4 (IP cidr) = [] \<longrightarrow>
      ParseNodePodCIDR net node = Inl PodCIDRNotIPv4) \<and>
   (ParseNodePodCIDR net node = Inr c \<longrightarrow>
      length (IP c) = 4 \<and>
      (\<exists>ip' cidr'. ParseCIDR net (node_PodCIDR node) = Some (ip', cidr') \<and>
         c = cidr'\<lparr>IP := To4 (IP cidr')\<rparr>))"
proof (intro conjI impI)
  assume "ParseCIDR net (node_PodCIDR node) = None"
  then show "ParseNodePodCIDR net node = Inl PodCIDRParseError"
    by (simp add: ParseNodePodCIDR_def)
next
  assume "ParseCIDR net (node_PodCIDR node) = Some (ip, cidr) \<and> To4 (IP cidr) = []"
  then show "ParseNodePodCIDR net node = Inl PodCIDRNotIPv4"
    by (simp add: ParseNodePodCIDR_def)
next
  assume r: "ParseNodePodCIDR net node = Inr c"
  then obtain ip' cidr' where p: "ParseCIDR net (node_PodCIDR node) = Some (ip', cidr')"
    and n: "To4 (IP cidr') \<noteq> []" and c: "c = cidr'\<lparr>IP := To4 (IP cidr')\<rparr>"
    by (auto simp: ParseNodePodCIDR_def Let_def split: option.splits if_splits)
  from n have "length (To4 (IP cidr')) = 4" by (rule length_To4)
  with c show "length (IP c) = 4" by simp
  from p c show "\<exists>ip' cidr'. ParseCIDR net (node_PodCIDR node) = Some (ip', cidr') \<and>
         c = cidr'\<lparr>IP := To4 (IP cidr')\<rparr>" by blast
qed

theorem ParseNodePodCIDR_IPv4_only_witness:
  "ParseNodePodCIDR example_net (example_worker1\<lparr>node_PodCIDR := ''10.10.1.0''\<rparr>) =
     Inl PodCIDRParseError \<and>
   ParseNodePodCIDR example_net (example_worker1\<lparr>node_PodCIDR := ''fd00::/64''\<rparr>) =
     Inl PodCIDRNotIPv4 \<and>
   ParseNodePodCIDR example_net example_worker1 =
     Inr \<lparr>IP = [10, 10, 1, 0], Mask = [255, 255, 255, 0]\<rparr> \<and>
   length (IP \<lparr>IP = [10, 10, 1, 0 :: byte], Mask = [255, 255, 255, 0]\<rparr>) = 4"
proof -
  let ?bad = "example_worker1\<lparr>node_PodCIDR := ''10.10.1.0''\<rparr>"
  let ?v6 = "example_worker1\<lparr>node_PodCIDR := ''fd00::/64''\<rparr>"
  let ?ip6 = "[253, 0, 0, 0, 0, 0, 0, 0, 0, 0, 0, 0, 0, 0, 0, 0] :: IP"
  let ?c6 = "\<lparr>IP = ?ip6, Mask = [255, 255, 255, 255, 255, 255, 255, 255, 0, 0, 0, 0, 0, 0, 0, 0]\<rparr>"
  let ?c = "\<lparr>IP = [10, 10, 1, 0 :: byte], Mask = [255, 255, 255, 0]\<rparr>"
  have a: "ParseNodePodCIDR example_net ?bad = Inl PodCIDRParseError"
    by (rule ParseNodePodCIDR_IPv4_only
          [where net = example_net and node = ?bad, THEN conjunct1, THEN mp])
      (simp add: example_net_def example_worker1_def)
  have b: "ParseNodePodCIDR example_net ?v6 = Inl PodCIDRNotIPv4"
    by (rule ParseNodePodCIDR_IPv4_only
          [where net = example_net and node = ?v6 and ip = ?ip6 and cidr = ?c6,
          THEN conjunct2, THEN conjunct1, THEN mp])
      (simp add: example_net_def example_worker1_def To4_def)
  have r: "ParseNodePodCIDR example_net example_worker1 = Inr ?c"
    by (simp add: ParseNodePodCIDR_def example_net_def example_worker1_def To4_def)
  have "length (IP ?c) = 4"
    using ParseNodePodCIDR_IPv4_only
          [where net = example_net and node = example_worker1 and c = ?c,
          THEN conjunct2, THEN conjunct2, THEN mp, OF r]
    by blast
  with a b r show ?thesis by blast
qed

lemma ports_loop_find:
  "ports_loop net ports =
     (case find (\<lambda>p. port_Name p = ''to_br0'') ports of
        None \<Rightarrow> Inl PortNotFound
      | Some p \<Rightarrow> (case ParseMAC net (port_Mac p) of
                     None \<Rightarrow> Inl MACParseError
                   | Some m \<Rightarrow> Inr m))"
  by (induction ports) simp_all

text \<open>
  C9. \<^verbatim>\<open>GetNodePodDefaultGatewayMAC\<close> reads the router and takes its first port named
  \<open>to_br0\<close>. When the router has no such port, or the MAC text of that port does not
  parse, it returns an error (and so no MAC, nil or zero); it returns a MAC exactly when
  the router is read, has such a port, and the MAC text of that port parses: the MAC is
  the parsed one.
\<close>

theorem GetNodePodDefaultGatewayMAC_to_br0:
  "(ReadRouterByID w (conf_routerName conf) = Some r \<and>
      \<not> (\<exists>p \<in> set (router_Ports r). port_Name p = ''to_br0'') \<longrightarrow>
      GetNodePodDefaultGatewayMAC net conf w = Inl PortNotFound) \<and>
   (ReadRouterByID w (conf_routerName conf) = Some r \<and>
      find (\<lambda>p. port_Name p = ''to_br0'') (router_Ports r) = Some p \<and>
      ParseMAC net (port_Mac p) = None \<longrightarrow>
      GetNodePodDefaultGatewayMAC net conf w = Inl MACParseError) \<and>
   (GetNodePodDefaultGatewayMAC net conf w = Inr mac \<longleftrightarrow>
      (\<exists>r' p'. ReadRouterByID w (conf_routerName conf) = Some r' \<and>
         find (\<lambda>p. port_Name p = ''to_br0'') (router_Ports r') = Some p' \<and>
         ParseMAC net (port_Mac p') = Some mac))"
proof (intro conjI impI)
  assume a: "ReadRouterByID w (conf_routerName conf) = Some r \<and>
      \<not> (\<exists>p \<in> set (router_Ports r). port_Name p = ''to_br0'')"
  then have "find (\<lambda>p. port_Name p = ''to_br0'') (router_Ports r) = None"
    by (simp add: find_None_iff)
  with a show "GetNodePodDefaultGatewayMAC net conf w = Inl PortNotFound"
    by (simp add: GetNodePodDefaultGatewayMAC_def GetRouter_def ports_loop_find)
next
  assume "ReadRouterByID w (conf_routerName conf) = Some r \<and>
      find (\<lambda>p. port_Name p = ''to_br0'') (router_Ports r) = Some p \<and>
      ParseMAC net (port_Mac p) = None"
  then show "GetNodePodDefaultGatewayMAC net conf w = Inl MACParseError"
    by (simp add: GetNodePodDefaultGatewayMAC_def GetRouter_def ports_loop_find)
next
  show "GetNodePodDefaultGatewayMAC net conf w = Inr mac \<longleftrightarrow>
      (\<exists>r' p'. ReadRouterByID w (conf_routerName conf) = Some r' \<and>
         find (\<lambda>p. port_Name p = ''to_br0'') (router_Ports r') = Some p' \<and>
         ParseMAC net (port_Mac p') = Some mac)"
    by (auto simp: GetNodePodDefaultGatewayMAC_def GetRouter_def ports_loop_find
        split: option.splits)
qed

theorem GetNodePodDefaultGatewayMAC_to_br0_witness:
  "GetNodePodDefaultGatewayMAC example_net example_conf
     (example_world\<lparr>ReadRouterByID := (\<lambda>s. Some (example_router\<lparr>router_Ports :=
        [\<lparr>port_Name = ''to_vxlan0'', port_Ip = '''', port_Mac = ''''\<rparr>]\<rparr>))\<rparr>) = Inl PortNotFound \<and>
   GetNodePodDefaultGatewayMAC example_net example_conf
     (example_world\<lparr>ReadRouterByID := (\<lambda>s. Some (example_router\<lparr>router_Ports :=
        [\<lparr>port_Name = ''to_br0'', port_Ip = '''', port_Mac = ''''\<rparr>]\<rparr>))\<rparr>) = Inl MACParseError \<and>
   GetNodePodDefaultGatewayMAC example_net example_conf example_world =
     Inr [170, 187, 204, 221, 238, 255]"
proof -
  let ?r1 = "example_router\<lparr>router_Ports :=
        [\<lparr>port_Name = ''to_vxlan0'', port_Ip = '''', port_Mac = ''''\<rparr>]\<rparr>"
  let ?p2 = "\<lparr>port_Name = ''to_br0'', port_Ip = '''', port_Mac = ''''\<rparr>"
  let ?r2 = "example_router\<lparr>router_Ports := [?p2]\<rparr>"
  let ?w1 = "example_world\<lparr>ReadRouterByID := (\<lambda>s. Some ?r1)\<rparr>"
  let ?w2 = "example_world\<lparr>ReadRouterByID := (\<lambda>s. Some ?r2)\<rparr>"
  have a: "GetNodePodDefaultGatewayMAC example_net example_conf ?w1 = Inl PortNotFound"
    by (rule GetNodePodDefaultGatewayMAC_to_br0
          [where w = ?w1 and conf = example_conf and r = ?r1 and net = example_net,
          THEN conjunct1, THEN mp]) simp
  have b: "GetNodePodDefaultGatewayMAC example_net example_conf ?w2 = Inl MACParseError"
    by (rule GetNodePodDefaultGatewayMAC_to_br0
          [where w = ?w2 and conf = example_conf and r = ?r2 and p = ?p2 and net = example_net,
          THEN conjunct2, THEN conjunct1, THEN mp]) (simp add: example_net_def)
  have c: "GetNodePodDefaultGatewayMAC example_net example_conf example_world =
      Inr [170, 187, 204, 221, 238, 255]"
    by (rule GetNodePodDefaultGatewayMAC_to_br0
          [where w = example_world and conf = example_conf and net = example_net,
          THEN conjunct2, THEN conjunct2, THEN iffD2])
      (simp add: example_world_def example_conf_def example_router_def example_net_def)
  from a b c show ?thesis by blast
qed

section \<open>The external interface and the uplink gateway\<close>

lemma addrs_loop_None:
  "(\<forall>a \<in> set as. \<not> IP_Equal (IP (addr_IPNet a)) ip) \<Longrightarrow> addrs_loop as ip = None"
  by (induction as) simp_all

lemma addrs_loop_NoneD:
  "addrs_loop as ip = None \<Longrightarrow> \<forall>a \<in> set as. \<not> IP_Equal (IP (addr_IPNet a)) ip"
  by (induction as) (auto split: if_splits)

lemma addrs_loop_first:
  "(\<forall>a \<in> set apre. \<not> IP_Equal (IP (addr_IPNet a)) ip) \<Longrightarrow>
   IP_Equal (IP (addr_IPNet addr)) ip \<Longrightarrow>
   addrs_loop (apre @ addr # apost) ip = Some addr"
  by (induction apre) simp_all

lemma addrs_loop_Some:
  "addrs_loop as ip = Some addr \<Longrightarrow>
   \<exists>apre apost. as = apre @ addr # apost \<and>
     (\<forall>a \<in> set apre. \<not> IP_Equal (IP (addr_IPNet a)) ip) \<and> IP_Equal (IP (addr_IPNet addr)) ip"
proof (induction as)
  case Nil
  then show ?case by simp
next
  case (Cons a as)
  show ?case
  proof (cases "IP_Equal (IP (addr_IPNet a)) ip")
    case True
    with Cons.prems have "a = addr" by simp
    with True have "a # as = [] @ addr # as \<and>
        (\<forall>a \<in> set []. \<not> IP_Equal (IP (addr_IPNet a)) ip) \<and> IP_Equal (IP (addr_IPNet addr)) ip"
      by simp
    then show ?thesis by blast
  next
    case False
    with Cons.prems have "addrs_loop as ip = Some addr" by simp
    from Cons.IH [OF this] obtain apre apost where
      "as = apre @ addr # apost" "\<forall>a \<in> set apre. \<not> IP_Equal (IP (addr_IPNet a)) ip"
      "IP_Equal (IP (addr_IPNet addr)) ip" by blast
    with False have "a # as = (a # apre) @ addr # apost \<and>
        (\<forall>a \<in> set (a # apre). \<not> IP_Equal (IP (addr_IPNet a)) ip) \<and>
        IP_Equal (IP (addr_IPNet addr)) ip"
      by simp
    then show ?thesis by blast
  qed
qed

lemma links_loop_first:
  "(\<forall>l \<in> set pre. \<not> AddrList_err w l \<and>
      (\<forall>a \<in> set (kernel_addrs w l). \<not> IP_Equal (IP (addr_IPNet a)) ip)) \<Longrightarrow>
   \<not> AddrList_err w link \<Longrightarrow> addrs_loop (kernel_addrs w link) ip = Some addr \<Longrightarrow>
   links_loop w (pre @ link # post) ip = Inr \<lparr>if_IPNet = addr_IPNet addr, if_Link = link\<rparr>"
  by (induction pre) (simp_all add: AddrList_def addrs_loop_None)

lemma links_loop_none:
  "(\<forall>l \<in> set ls. \<not> AddrList_err w l \<and>
      (\<forall>a \<in> set (kernel_addrs w l). \<not> IP_Equal (IP (addr_IPNet a)) ip)) \<Longrightarrow>
   links_loop w ls ip = Inl ExtIfaceNotFound"
  by (induction ls) (simp_all add: AddrList_def addrs_loop_None)

lemma links_loop_fails:
  "(\<forall>l \<in> set ls. \<forall>a \<in> set (kernel_addrs w l). \<not> IP_Equal (IP (addr_IPNet a)) ip) \<Longrightarrow>
   \<exists>e. links_loop w ls ip = Inl e"
  by (induction ls) (simp_all add: AddrList_def addrs_loop_None)

lemma links_loop_Inr:
  "links_loop w ls ip = Inr iface \<Longrightarrow>
   \<exists>pre post addr. ls = pre @ if_Link iface # post \<and>
     (\<forall>l \<in> set pre. \<not> AddrList_err w l \<and>
        (\<forall>a \<in> set (kernel_addrs w l). \<not> IP_Equal (IP (addr_IPNet a)) ip)) \<and>
     \<not> AddrList_err w (if_Link iface) \<and>
     addrs_loop (kernel_addrs w (if_Link iface)) ip = Some addr \<and>
     if_IPNet iface = addr_IPNet addr"
proof (induction ls)
  case Nil
  then show ?case by simp
next
  case (Cons l ls)
  from Cons.prems have ok: "\<not> AddrList_err w l"
    by (auto simp: AddrList_def split: if_splits)
  show ?case
  proof (cases "addrs_loop (kernel_addrs w l) ip")
    case (Some addr)
    with Cons.prems ok have "iface = \<lparr>if_IPNet = addr_IPNet addr, if_Link = l\<rparr>"
      by (simp add: AddrList_def)
    with Some ok have "l # ls = [] @ if_Link iface # ls \<and>
        (\<forall>l \<in> set []. \<not> AddrList_err w l \<and>
           (\<forall>a \<in> set (kernel_addrs w l). \<not> IP_Equal (IP (addr_IPNet a)) ip)) \<and>
        \<not> AddrList_err w (if_Link iface) \<and>
        addrs_loop (kernel_addrs w (if_Link iface)) ip = Some addr \<and>
        if_IPNet iface = addr_IPNet addr"
      by simp
    then show ?thesis by blast
  next
    case None
    then have no: "\<forall>a \<in> set (kernel_addrs w l). \<not> IP_Equal (IP (addr_IPNet a)) ip"
      by (rule addrs_loop_NoneD)
    from None Cons.prems ok have "links_loop w ls ip = Inr iface"
      by (simp add: AddrList_def)
    from Cons.IH [OF this] obtain pre post addr where
      "ls = pre @ if_Link iface # post"
      "\<forall>l \<in> set pre. \<not> AddrList_err w l \<and>
         (\<forall>a \<in> set (kernel_addrs w l). \<not> IP_Equal (IP (addr_IPNet a)) ip)"
      "\<not> AddrList_err w (if_Link iface)"
      "addrs_loop (kernel_addrs w (if_Link iface)) ip = Some addr"
      "if_IPNet iface = addr_IPNet addr" by blast
    with ok no have "l # ls = (l # pre) @ if_Link iface # post \<and>
        (\<forall>l \<in> set (l # pre). \<not> AddrList_err w l \<and>
           (\<forall>a \<in> set (kernel_addrs w l). \<not> IP_Equal (IP (addr_IPNet a)) ip)) \<and>
        \<not> AddrList_err w (if_Link iface) \<and>
        addrs_loop (kernel_addrs w (if_Link iface)) ip = Some addr \<and>
        if_IPNet iface = addr_IPNet addr"
      by simp
    then show ?thesis by blast
  qed
qed

lemma internal_ip_loop_first:
  "(\<forall>x \<in> set npre. addr_Type x \<noteq> ''InternalIP'') \<Longrightarrow> addr_Type na = ''InternalIP'' \<Longrightarrow>
   internal_ip_loop net (npre @ na # npost) = ParseIP net (addr_Address na)"
  by (induction npre) (simp_all add: NodeInternalIP_def)

lemma internal_ip_loop_none:
  "(\<forall>x \<in> set nas. addr_Type x \<noteq> ''InternalIP'') \<Longrightarrow> internal_ip_loop net nas = []"
  by (induction nas) (simp_all add: NodeInternalIP_def)

lemma internal_ip_loop_cases:
  "(\<forall>x \<in> set nas. addr_Type x \<noteq> ''InternalIP'') \<or>
   (\<exists>npre na npost. nas = npre @ na # npost \<and>
      (\<forall>x \<in> set npre. addr_Type x \<noteq> ''InternalIP'') \<and> addr_Type na = ''InternalIP'')"
proof (induction nas)
  case Nil
  then show ?case by simp
next
  case (Cons a nas)
  show ?case
  proof (cases "addr_Type a = ''InternalIP''")
    case True
    then have "a # nas = [] @ a # nas \<and>
        (\<forall>x \<in> set []. addr_Type x \<noteq> ''InternalIP'') \<and> addr_Type a = ''InternalIP''"
      by simp
    then show ?thesis by blast
  next
    case False
    from Cons.IH show ?thesis
    proof
      assume "\<forall>x \<in> set nas. addr_Type x \<noteq> ''InternalIP''"
      with False show ?thesis by simp
    next
      assume "\<exists>npre na npost. nas = npre @ na # npost \<and>
        (\<forall>x \<in> set npre. addr_Type x \<noteq> ''InternalIP'') \<and> addr_Type na = ''InternalIP''"
      then obtain npre na npost where
        "nas = npre @ na # npost" "\<forall>x \<in> set npre. addr_Type x \<noteq> ''InternalIP''"
        "addr_Type na = ''InternalIP''" by blast
      with False have "a # nas = (a # npre) @ na # npost \<and>
          (\<forall>x \<in> set (a # npre). addr_Type x \<noteq> ''InternalIP'') \<and> addr_Type na = ''InternalIP''"
        by simp
      then show ?thesis by blast
    qed
  qed
qed

text \<open>
  C6, as stated: the first enumerated interface that holds the internal IP of the node
  is returned. \<^verbatim>\<open>GetNodeExtIface\<close> returns the error of \<^verbatim>\<open>netlink.AddrList\<close> as soon as the
  address list of an interface cannot be read: here the list of \<open>lo\<close>, the first
  interface, cannot be read, and the function fails though \<open>eth0\<close>, enumerated after it,
  holds the internal IP 192.168.1.11 of the node.
\<close>

theorem GetNodeExtIface_AddrList_counterexample:
  "GetNodeExtIface example_net example_worker1
     (example_world\<lparr>AddrList_err := (\<lambda>l. l = example_lo)\<rparr>) = Inl AddrListError \<and>
   node_Addresses example_worker1 =
     [\<lparr>addr_Type = ''Hostname'', addr_Address = ''worker1''\<rparr>,
      \<lparr>addr_Type = ''InternalIP'', addr_Address = ''192.168.1.11''\<rparr>] \<and>
   ParseIP example_net ''192.168.1.11'' = IPv4 192 168 1 11 \<and>
   kernel_links (example_world\<lparr>AddrList_err := (\<lambda>l. l = example_lo)\<rparr>) =
     [example_lo, example_eth0, example_vxlan0] \<and>
   kernel_addrs (example_world\<lparr>AddrList_err := (\<lambda>l. l = example_lo)\<rparr>) example_eth0 =
     [\<lparr>addr_IPNet = \<lparr>IP = [192, 168, 1, 11], Mask = [255, 255, 255, 0]\<rparr>\<rparr>] \<and>
   IP_Equal [192, 168, 1, 11] (IPv4 192 168 1 11)"
  by (simp add: GetNodeExtIface_def LinkList_def AddrList_def example_world_def
      example_worker1_def example_net_def NodeInternalIP_def example_lo_def example_eth0_def
      IP_Equal_def IPv4_def v4InV6Prefix_def)

text \<open>
  C6, amended. Let the internal IP of the node be the parsed text of the first of its
  addresses whose type is \<open>InternalIP\<close>. When that text parses, the interfaces are listed
  without error and the addresses of the interfaces up to the match are listed without
  error, \<^verbatim>\<open>GetNodeExtIface\<close> returns the first interface of the enumeration one of whose IPv4
  addresses equals the internal IP, with the first such address and its mask, whatever
  addresses the interfaces before it hold and whatever comes after it. When no interface
  holds an address equal to the internal IP it returns an error, and that error is the
  one of the interface not found when the text parses and every list is read. Whenever it
  returns an interface, the node has an address of type \<open>InternalIP\<close> and the interface is
  the first one that holds the parsed text of the first such address.
\<close>

theorem GetNodeExtIface_first_owner:
  "(node_Addresses node = npre @ na # npost \<and>
      (\<forall>x \<in> set npre. addr_Type x \<noteq> ''InternalIP'') \<and> addr_Type na = ''InternalIP'' \<and>
      ParseIP net (addr_Address na) = extIP \<and> extIP \<noteq> [] \<and>
      \<not> LinkList_err w \<and> kernel_links w = pre @ link # post \<and>
      (\<forall>l \<in> set pre. \<not> AddrList_err w l \<and>
         (\<forall>a \<in> set (kernel_addrs w l). \<not> IP_Equal (IP (addr_IPNet a)) extIP)) \<and>
      \<not> AddrList_err w link \<and> kernel_addrs w link = apre @ addr # apost \<and>
      (\<forall>a \<in> set apre. \<not> IP_Equal (IP (addr_IPNet a)) extIP) \<and>
      IP_Equal (IP (addr_IPNet addr)) extIP \<longrightarrow>
      GetNodeExtIface net node w = Inr \<lparr>if_IPNet = addr_IPNet addr, if_Link = link\<rparr>) \<and>
   (node_Addresses node = npre @ na # npost \<and>
      (\<forall>x \<in> set npre. addr_Type x \<noteq> ''InternalIP'') \<and> addr_Type na = ''InternalIP'' \<and>
      ParseIP net (addr_Address na) = extIP \<and>
      (\<forall>l \<in> set (kernel_links w). \<forall>a \<in> set (kernel_addrs w l).
         \<not> IP_Equal (IP (addr_IPNet a)) extIP) \<longrightarrow>
      (\<exists>e. GetNodeExtIface net node w = Inl e) \<and>
      (extIP \<noteq> [] \<and> \<not> LinkList_err w \<and> (\<forall>l \<in> set (kernel_links w). \<not> AddrList_err w l) \<longrightarrow>
         GetNodeExtIface net node w = Inl ExtIfaceNotFound)) \<and>
   (GetNodeExtIface net node w = Inr iface \<longrightarrow>
      (\<exists>npre' na' npost' pre' post' apre' apost' addr'.
         node_Addresses node = npre' @ na' # npost' \<and>
         (\<forall>x \<in> set npre'. addr_Type x \<noteq> ''InternalIP'') \<and> addr_Type na' = ''InternalIP'' \<and>
         kernel_links w = pre' @ if_Link iface # post' \<and>
         (\<forall>l \<in> set pre'. \<forall>a \<in> set (kernel_addrs w l).
            \<not> IP_Equal (IP (addr_IPNet a)) (ParseIP net (addr_Address na'))) \<and>
         kernel_addrs w (if_Link iface) = apre' @ addr' # apost' \<and>
         (\<forall>a \<in> set apre'.
            \<not> IP_Equal (IP (addr_IPNet a)) (ParseIP net (addr_Address na'))) \<and>
         IP_Equal (IP (addr_IPNet addr')) (ParseIP net (addr_Address na')) \<and>
         if_IPNet iface = addr_IPNet addr'))"
proof (intro conjI impI)
  assume a: "node_Addresses node = npre @ na # npost \<and>
      (\<forall>x \<in> set npre. addr_Type x \<noteq> ''InternalIP'') \<and> addr_Type na = ''InternalIP'' \<and>
      ParseIP net (addr_Address na) = extIP \<and> extIP \<noteq> [] \<and>
      \<not> LinkList_err w \<and> kernel_links w = pre @ link # post \<and>
      (\<forall>l \<in> set pre. \<not> AddrList_err w l \<and>
         (\<forall>a \<in> set (kernel_addrs w l). \<not> IP_Equal (IP (addr_IPNet a)) extIP)) \<and>
      \<not> AddrList_err w link \<and> kernel_addrs w link = apre @ addr # apost \<and>
      (\<forall>a \<in> set apre. \<not> IP_Equal (IP (addr_IPNet a)) extIP) \<and>
      IP_Equal (IP (addr_IPNet addr)) extIP"
  then have ip: "internal_ip_loop net (node_Addresses node) = extIP"
    by (simp add: internal_ip_loop_first)
  from a have "addrs_loop (kernel_addrs w link) extIP = Some addr"
    by (simp add: addrs_loop_first)
  with a have "links_loop w (pre @ link # post) extIP =
      Inr \<lparr>if_IPNet = addr_IPNet addr, if_Link = link\<rparr>"
    by (intro links_loop_first) simp_all
  with a ip show "GetNodeExtIface net node w = Inr \<lparr>if_IPNet = addr_IPNet addr, if_Link = link\<rparr>"
    by (simp add: GetNodeExtIface_def LinkList_def)
next
  assume a: "node_Addresses node = npre @ na # npost \<and>
      (\<forall>x \<in> set npre. addr_Type x \<noteq> ''InternalIP'') \<and> addr_Type na = ''InternalIP'' \<and>
      ParseIP net (addr_Address na) = extIP \<and>
      (\<forall>l \<in> set (kernel_links w). \<forall>a \<in> set (kernel_addrs w l).
         \<not> IP_Equal (IP (addr_IPNet a)) extIP)"
  then have ip: "internal_ip_loop net (node_Addresses node) = extIP"
    by (simp add: internal_ip_loop_first)
  from a have "\<exists>e. links_loop w (kernel_links w) extIP = Inl e"
    by (intro links_loop_fails) simp
  with ip show "\<exists>e. GetNodeExtIface net node w = Inl e"
    by (auto simp: GetNodeExtIface_def LinkList_def Let_def)
next
  assume a: "node_Addresses node = npre @ na # npost \<and>
      (\<forall>x \<in> set npre. addr_Type x \<noteq> ''InternalIP'') \<and> addr_Type na = ''InternalIP'' \<and>
      ParseIP net (addr_Address na) = extIP \<and>
      (\<forall>l \<in> set (kernel_links w). \<forall>a \<in> set (kernel_addrs w l).
         \<not> IP_Equal (IP (addr_IPNet a)) extIP)"
    and b: "extIP \<noteq> [] \<and> \<not> LinkList_err w \<and> (\<forall>l \<in> set (kernel_links w). \<not> AddrList_err w l)"
  then have ip: "internal_ip_loop net (node_Addresses node) = extIP"
    by (simp add: internal_ip_loop_first)
  from a b have "links_loop w (kernel_links w) extIP = Inl ExtIfaceNotFound"
    by (intro links_loop_none) simp
  with ip b show "GetNodeExtIface net node w = Inl ExtIfaceNotFound"
    by (simp add: GetNodeExtIface_def LinkList_def)
next
  let ?ip = "internal_ip_loop net (node_Addresses node)"
  assume r: "GetNodeExtIface net node w = Inr iface"
  then have nn: "?ip \<noteq> []"
    by (auto simp: GetNodeExtIface_def Let_def split: if_splits)
  with internal_ip_loop_cases [of "node_Addresses node"] internal_ip_loop_none [of _ net]
  obtain npre' na' npost' where n:
    "node_Addresses node = npre' @ na' # npost'"
    "\<forall>x \<in> set npre'. addr_Type x \<noteq> ''InternalIP''" "addr_Type na' = ''InternalIP''"
    by blast
  then have ip: "?ip = ParseIP net (addr_Address na')"
    by (simp add: internal_ip_loop_first)
  from r have "links_loop w (kernel_links w) ?ip = Inr iface"
    by (auto simp: GetNodeExtIface_def LinkList_def Let_def split: if_splits)
  from links_loop_Inr [OF this] obtain pre' post' addr' where l:
    "kernel_links w = pre' @ if_Link iface # post'"
    "\<forall>l \<in> set pre'. \<not> AddrList_err w l \<and>
       (\<forall>a \<in> set (kernel_addrs w l). \<not> IP_Equal (IP (addr_IPNet a)) ?ip)"
    "addrs_loop (kernel_addrs w (if_Link iface)) ?ip = Some addr'"
    "if_IPNet iface = addr_IPNet addr'" by blast
  from addrs_loop_Some [OF l(3)] obtain apre' apost' where ad:
    "kernel_addrs w (if_Link iface) = apre' @ addr' # apost'"
    "\<forall>a \<in> set apre'. \<not> IP_Equal (IP (addr_IPNet a)) ?ip"
    "IP_Equal (IP (addr_IPNet addr')) ?ip" by blast
  from l(2) have l2: "\<forall>l \<in> set pre'. \<forall>a \<in> set (kernel_addrs w l).
      \<not> IP_Equal (IP (addr_IPNet a)) (ParseIP net (addr_Address na'))"
    unfolding ip by blast
  from n l(1) l2 ad [unfolded ip] l(4) show "\<exists>npre' na' npost' pre' post' apre' apost' addr'.
         node_Addresses node = npre' @ na' # npost' \<and>
         (\<forall>x \<in> set npre'. addr_Type x \<noteq> ''InternalIP'') \<and> addr_Type na' = ''InternalIP'' \<and>
         kernel_links w = pre' @ if_Link iface # post' \<and>
         (\<forall>l \<in> set pre'. \<forall>a \<in> set (kernel_addrs w l).
            \<not> IP_Equal (IP (addr_IPNet a)) (ParseIP net (addr_Address na'))) \<and>
         kernel_addrs w (if_Link iface) = apre' @ addr' # apost' \<and>
         (\<forall>a \<in> set apre'.
            \<not> IP_Equal (IP (addr_IPNet a)) (ParseIP net (addr_Address na'))) \<and>
         IP_Equal (IP (addr_IPNet addr')) (ParseIP net (addr_Address na')) \<and>
         if_IPNet iface = addr_IPNet addr'"
    by blast
qed

theorem GetNodeExtIface_first_owner_witness:
  "GetNodeExtIface example_net example_worker1 example_world =
     Inr \<lparr>if_IPNet = \<lparr>IP = [192, 168, 1, 11], Mask = [255, 255, 255, 0]\<rparr>,
          if_Link = example_eth0\<rparr> \<and>
   GetNodeExtIface example_net example_worker2 example_world = Inl ExtIfaceNotFound \<and>
   (\<exists>npre' na' npost' pre' post' apre' apost' addr'.
      node_Addresses example_worker1 = npre' @ na' # npost' \<and>
      addr_Type na' = ''InternalIP'' \<and>
      kernel_links example_world = pre' @ example_eth0 # post' \<and>
      kernel_addrs example_world example_eth0 = apre' @ addr' # apost' \<and>
      IP_Equal (IP (addr_IPNet addr')) (ParseIP example_net (addr_Address na')))"
proof -
  let ?a = "\<lparr>addr_IPNet = \<lparr>IP = [192, 168, 1, 11], Mask = [255, 255, 255, 0]\<rparr>\<rparr>"
  let ?h1 = "\<lparr>addr_Type = ''Hostname'', addr_Address = ''worker1''\<rparr>"
  let ?n1 = "\<lparr>addr_Type = ''InternalIP'', addr_Address = ''192.168.1.11''\<rparr>"
  let ?n2 = "\<lparr>addr_Type = ''InternalIP'', addr_Address = ''192.168.1.12''\<rparr>"
  have na1: "node_Addresses example_worker1 = [?h1] @ ?n1 # []"
    "ParseIP example_net ''192.168.1.11'' = IPv4 192 168 1 11"
    by (simp_all add: example_worker1_def example_net_def)
  have na2: "node_Addresses example_worker2 = [] @ ?n2 # []"
    "ParseIP example_net ''192.168.1.12'' = IPv4 192 168 1 12"
    by (simp_all add: example_worker2_def example_net_def)
  have ne: "example_lo \<noteq> example_eth0" "example_vxlan0 \<noteq> example_lo"
    "example_vxlan0 \<noteq> example_eth0"
    by (simp_all add: example_lo_def example_eth0_def example_vxlan0_def)
  have w: "kernel_links example_world = [example_lo] @ example_eth0 # [example_vxlan0]"
    "\<not> LinkList_err example_world" "\<And>l. \<not> AddrList_err example_world l"
    "kernel_addrs example_world example_eth0 = [] @ ?a # []"
    "kernel_addrs example_world example_lo =
       [\<lparr>addr_IPNet = \<lparr>IP = [127, 0, 0, 1], Mask = [255, 0, 0, 0]\<rparr>\<rparr>]"
    "kernel_addrs example_world example_vxlan0 = []"
    using ne by (simp_all add: example_world_def)
  have a: "GetNodeExtIface example_net example_worker1 example_world =
      Inr \<lparr>if_IPNet = addr_IPNet ?a, if_Link = example_eth0\<rparr>"
    by (rule GetNodeExtIface_first_owner
          [where net = example_net and node = example_worker1 and w = example_world
             and npre = "[?h1]" and na = ?n1 and npost = "[]"
             and extIP = "IPv4 192 168 1 11" and pre = "[example_lo]" and link = example_eth0
             and post = "[example_vxlan0]" and apre = "[]" and addr = ?a and apost = "[]",
           THEN conjunct1, THEN mp])
      (simp add: na1 w IP_Equal_def IPv4_def v4InV6Prefix_def)
  have b: "GetNodeExtIface example_net example_worker2 example_world = Inl ExtIfaceNotFound"
    by (rule GetNodeExtIface_first_owner
          [where net = example_net and node = example_worker2 and w = example_world
             and npre = "[]" and na = ?n2 and npost = "[]"
             and extIP = "IPv4 192 168 1 12",
           THEN conjunct2, THEN conjunct1, THEN mp, THEN conjunct2, THEN mp])
      (simp_all add: na2 w IP_Equal_def IPv4_def v4InV6Prefix_def)
  have "\<exists>npre' na' npost' pre' post' apre' apost' addr'.
         node_Addresses example_worker1 = npre' @ na' # npost' \<and>
         (\<forall>x \<in> set npre'. addr_Type x \<noteq> ''InternalIP'') \<and> addr_Type na' = ''InternalIP'' \<and>
         kernel_links example_world =
           pre' @ if_Link \<lparr>if_IPNet = addr_IPNet ?a, if_Link = example_eth0\<rparr> # post' \<and>
         (\<forall>l \<in> set pre'. \<forall>a \<in> set (kernel_addrs example_world l).
            \<not> IP_Equal (IP (addr_IPNet a)) (ParseIP example_net (addr_Address na'))) \<and>
         kernel_addrs example_world (if_Link \<lparr>if_IPNet = addr_IPNet ?a, if_Link = example_eth0\<rparr>) =
           apre' @ addr' # apost' \<and>
         (\<forall>a \<in> set apre'.
            \<not> IP_Equal (IP (addr_IPNet a)) (ParseIP example_net (addr_Address na'))) \<and>
         IP_Equal (IP (addr_IPNet addr')) (ParseIP example_net (addr_Address na')) \<and>
         if_IPNet \<lparr>if_IPNet = addr_IPNet ?a, if_Link = example_eth0\<rparr> = addr_IPNet addr'"
    by (rule GetNodeExtIface_first_owner
          [where net = example_net and node = example_worker1 and w = example_world,
           THEN conjunct2, THEN conjunct2, THEN mp]) (rule a)
  then have c: "\<exists>npre' na' npost' pre' post' apre' apost' addr'.
      node_Addresses example_worker1 = npre' @ na' # npost' \<and>
      addr_Type na' = ''InternalIP'' \<and>
      kernel_links example_world = pre' @ example_eth0 # post' \<and>
      kernel_addrs example_world example_eth0 = apre' @ addr' # apost' \<and>
      IP_Equal (IP (addr_IPNet addr')) (ParseIP example_net (addr_Address na'))"
    by (elim exE conjE) (simp, blast)
  from a b c show ?thesis by simp
qed

lemma neighs_loop_None_iff:
  "neighs_loop neighs ip = None \<longleftrightarrow> \<not> (\<exists>n \<in> set neighs. IP_Equal (neigh_IP n) ip)"
  by (induction neighs) auto

lemma neighs_loop_first:
  "(\<forall>n \<in> set npre. \<not> IP_Equal (neigh_IP n) ip) \<Longrightarrow> IP_Equal (neigh_IP neigh) ip \<Longrightarrow>
   neighs_loop (npre @ neigh # npost) ip = Some neigh"
  by (induction npre) simp_all

text \<open>
  C5, as stated: the resolution fails exactly when the probe query returns a number of
  routes other than one, or the route leaves by another link, or the neighbor table of the
  external interface has no entry for the next hop. It also fails when the query of the
  neighbor table itself returns an error: here one route, by the right link, and the next
  hop is in the table.
\<close>

theorem GetNodeDefaultGateway_NeighList_counterexample:
  "GetNodeDefaultGateway example_extIface (example_world\<lparr>NeighList_err := (\<lambda>i. True)\<rparr>) =
     Inl NeighListError \<and>
   RouteGet (example_world\<lparr>NeighList_err := (\<lambda>i. True)\<rparr>) (IPv4 1 0 0 0) =
     Some [\<lparr>route_LinkIndex = 2, route_Gw = [192, 168, 1, 1]\<rparr>] \<and>
   link_Index (if_Link example_extIface) = 2 \<and>
   (\<exists>n \<in> set (neigh_table (example_world\<lparr>NeighList_err := (\<lambda>i. True)\<rparr>) 2).
      IP_Equal (neigh_IP n) [192, 168, 1, 1])"
  by (simp add: GetNodeDefaultGateway_def RouteGet_def NeighList_def example_world_def
      example_extIface_def example_eth0_def IP_Equal_def)

text \<open>
  C5, amended. \<^verbatim>\<open>GetNodeDefaultGateway\<close> fails, and returns no \<open>GwInfo\<close>, exactly when the
  probe query does not return exactly one route (it returns an error, and so no route, or
  a number of routes other than one), or the link index of the one route differs from the
  link index of the external interface, or the query of the neighbor table of that link
  returns an error, or no entry of that table has an IP equal to the next hop of the
  route. Otherwise it returns the next hop with the mask of the address of the external
  interface, and the MAC of the first entry of the table whose IP equals the next hop.
\<close>

theorem GetNodeDefaultGateway_fails_iff:
  "((\<exists>e. GetNodeDefaultGateway extIface w = Inl e) \<longleftrightarrow>
      (\<forall>route. RouteGet w (IPv4 1 0 0 0) \<noteq> Some [route]) \<or>
      (\<exists>route. RouteGet w (IPv4 1 0 0 0) = Some [route] \<and>
         (route_LinkIndex route \<noteq> link_Index (if_Link extIface) \<or>
          NeighList_err w (link_Index (if_Link extIface)) \<or>
          \<not> (\<exists>n \<in> set (neigh_table w (link_Index (if_Link extIface))).
                IP_Equal (neigh_IP n) (route_Gw route))))) \<and>
   (RouteGet w (IPv4 1 0 0 0) = Some [route] \<and>
      route_LinkIndex route = link_Index (if_Link extIface) \<and>
      \<not> NeighList_err w (link_Index (if_Link extIface)) \<and>
      neigh_table w (link_Index (if_Link extIface)) = npre @ neigh # npost \<and>
      (\<forall>n \<in> set npre. \<not> IP_Equal (neigh_IP n) (route_Gw route)) \<and>
      IP_Equal (neigh_IP neigh) (route_Gw route) \<longrightarrow>
      GetNodeDefaultGateway extIface w =
        Inr \<lparr>gw_IPNet = \<lparr>IP = route_Gw route, Mask = Mask (if_IPNet extIface)\<rparr>,
             gw_MAC = neigh_HardwareAddr neigh\<rparr>)"
proof (intro conjI impI)
  show "(\<exists>e. GetNodeDefaultGateway extIface w = Inl e) \<longleftrightarrow>
      (\<forall>route. RouteGet w (IPv4 1 0 0 0) \<noteq> Some [route]) \<or>
      (\<exists>route. RouteGet w (IPv4 1 0 0 0) = Some [route] \<and>
         (route_LinkIndex route \<noteq> link_Index (if_Link extIface) \<or>
          NeighList_err w (link_Index (if_Link extIface)) \<or>
          \<not> (\<exists>n \<in> set (neigh_table w (link_Index (if_Link extIface))).
                IP_Equal (neigh_IP n) (route_Gw route))))"
  proof (cases "RouteGet w (IPv4 1 0 0 0)")
    case None
    then show ?thesis by (simp add: GetNodeDefaultGateway_def)
  next
    case (Some routes)
    show ?thesis
    proof (cases "\<exists>route. routes = [route]")
      case False
      then have "GetNodeDefaultGateway extIface w = Inl NotSingleRoute"
        using Some by (cases routes; cases "tl routes") (auto simp: GetNodeDefaultGateway_def)
      with Some False show ?thesis by auto
    next
      case True
      then obtain route where r: "routes = [route]" by blast
      show ?thesis
      proof (cases "route_LinkIndex route \<noteq> link_Index (if_Link extIface)")
        case True
        with Some r show ?thesis by (simp add: GetNodeDefaultGateway_def)
      next
        case idx: False
        show ?thesis
        proof (cases "NeighList_err w (link_Index (if_Link extIface))")
          case True
          with Some r idx show ?thesis
            by (simp add: GetNodeDefaultGateway_def NeighList_def)
        next
          case False
          show ?thesis
          proof (cases "neighs_loop (neigh_table w (link_Index (if_Link extIface))) (route_Gw route)")
            case None
            with Some r idx False show ?thesis
              using neighs_loop_None_iff
                [of "neigh_table w (link_Index (if_Link extIface))" "route_Gw route"]
              by (simp add: GetNodeDefaultGateway_def NeighList_def)
          next
            case (Some neigh)
            with \<open>RouteGet w (IPv4 1 0 0 0) = Some routes\<close> r idx False show ?thesis
              using neighs_loop_None_iff
                [of "neigh_table w (link_Index (if_Link extIface))" "route_Gw route"]
              by (simp add: GetNodeDefaultGateway_def NeighList_def)
          qed
        qed
      qed
    qed
  qed
next
  assume a: "RouteGet w (IPv4 1 0 0 0) = Some [route] \<and>
      route_LinkIndex route = link_Index (if_Link extIface) \<and>
      \<not> NeighList_err w (link_Index (if_Link extIface)) \<and>
      neigh_table w (link_Index (if_Link extIface)) = npre @ neigh # npost \<and>
      (\<forall>n \<in> set npre. \<not> IP_Equal (neigh_IP n) (route_Gw route)) \<and>
      IP_Equal (neigh_IP neigh) (route_Gw route)"
  then have "neighs_loop (neigh_table w (link_Index (if_Link extIface))) (route_Gw route) =
      Some neigh"
    by (simp add: neighs_loop_first)
  with a show "GetNodeDefaultGateway extIface w =
        Inr \<lparr>gw_IPNet = \<lparr>IP = route_Gw route, Mask = Mask (if_IPNet extIface)\<rparr>,
             gw_MAC = neigh_HardwareAddr neigh\<rparr>"
    by (simp add: GetNodeDefaultGateway_def NeighList_def)
qed

theorem GetNodeDefaultGateway_fails_iff_witness:
  "GetNodeDefaultGateway example_extIface example_world =
     Inr \<lparr>gw_IPNet = \<lparr>IP = [192, 168, 1, 1], Mask = [255, 255, 255, 0]\<rparr>,
          gw_MAC = [2, 0, 0, 0, 0, 1]\<rparr> \<and>
   (\<exists>e. GetNodeDefaultGateway example_extIface
           (example_world\<lparr>route_table := (\<lambda>d. [])\<rparr>) = Inl e) \<and>
   (\<exists>e. GetNodeDefaultGateway example_extIface
           (example_world\<lparr>route_table :=
              (\<lambda>d. [\<lparr>route_LinkIndex = 3, route_Gw = [192, 168, 1, 1]\<rparr>])\<rparr>) = Inl e) \<and>
   (\<exists>e. GetNodeDefaultGateway example_extIface
           (example_world\<lparr>neigh_table := (\<lambda>i. [])\<rparr>) = Inl e)"
proof -
  let ?r = "\<lparr>route_LinkIndex = 2, route_Gw = [192, 168, 1, 1]\<rparr>"
  let ?r3 = "\<lparr>route_LinkIndex = 3, route_Gw = [192, 168, 1, 1]\<rparr>"
  let ?n1 = "\<lparr>neigh_LinkIndex = 2, neigh_State = 2, neigh_IP = [192, 168, 1, 20],
            neigh_HardwareAddr = [2, 0, 0, 0, 0, 20]\<rparr>"
  let ?n2 = "\<lparr>neigh_LinkIndex = 2, neigh_State = 2, neigh_IP = [192, 168, 1, 1],
            neigh_HardwareAddr = [2, 0, 0, 0, 0, 1]\<rparr>"
  have a: "GetNodeDefaultGateway example_extIface example_world =
      Inr \<lparr>gw_IPNet = \<lparr>IP = route_Gw ?r, Mask = Mask (if_IPNet example_extIface)\<rparr>,
           gw_MAC = neigh_HardwareAddr ?n2\<rparr>"
    by (rule GetNodeDefaultGateway_fails_iff
          [where extIface = example_extIface and w = example_world and route = ?r
             and npre = "[?n1]" and neigh = ?n2 and npost = "[]",
           THEN conjunct2, THEN mp])
      (simp add: RouteGet_def example_world_def example_extIface_def example_eth0_def
         IP_Equal_def)
  have b: "\<exists>e. GetNodeDefaultGateway example_extIface
           (example_world\<lparr>route_table := (\<lambda>d. [])\<rparr>) = Inl e"
    by (rule GetNodeDefaultGateway_fails_iff
          [where extIface = example_extIface and w = "example_world\<lparr>route_table := (\<lambda>d. [])\<rparr>",
           THEN conjunct1, THEN iffD2])
      (simp add: RouteGet_def)
  have c: "\<exists>e. GetNodeDefaultGateway example_extIface
           (example_world\<lparr>route_table := (\<lambda>d. [?r3])\<rparr>) = Inl e"
    by (rule GetNodeDefaultGateway_fails_iff
          [where extIface = example_extIface
             and w = "example_world\<lparr>route_table := (\<lambda>d. [?r3])\<rparr>",
           THEN conjunct1, THEN iffD2])
      (simp add: RouteGet_def example_world_def example_extIface_def example_eth0_def)
  have d: "\<exists>e. GetNodeDefaultGateway example_extIface
           (example_world\<lparr>neigh_table := (\<lambda>i. [])\<rparr>) = Inl e"
    by (rule GetNodeDefaultGateway_fails_iff
          [where extIface = example_extIface and w = "example_world\<lparr>neigh_table := (\<lambda>i. [])\<rparr>",
           THEN conjunct1, THEN iffD2])
      (simp add: RouteGet_def example_world_def)
  from a b c d show ?thesis by (simp add: example_extIface_def)
qed

section \<open>Reachability of the other nodes\<close>

lemma AddNode_unfold:
  "AddNode net vxlanIfName nodeIP nodePodCIDR nodeVtepIP w =
     (case LinkByName w vxlanIfName of
        None \<Rightarrow> (Some LinkByNameError, w)
      | Some link \<Rightarrow>
          if NeighAppend_err w \<lparr>neigh_LinkIndex = link_Index link, neigh_State = NUD_PERMANENT,
                                neigh_IP = nodeIP, neigh_HardwareAddr = [0, 0, 0, 0, 0, 0]\<rparr>
          then (Some NeighAppendError, w)
          else if CreateRouterRouteByID_err w ''r0'' (QueryEscape net (IPNet_String net nodePodCIDR))
                    (IP_String net nodeVtepIP)
                    \<lparr>Network = IPNet_String net nodePodCIDR, Nexthop = IP_String net nodeVtepIP,
                     Interface_ = ''to_vxlan0''\<rparr>
          then (Some RouterRouteError,
                w\<lparr>neigh_table := (neigh_table w)(link_Index link := neigh_table w (link_Index link) @
                     [\<lparr>neigh_LinkIndex = link_Index link, neigh_State = NUD_PERMANENT,
                       neigh_IP = nodeIP, neigh_HardwareAddr = [0, 0, 0, 0, 0, 0]\<rparr>])\<rparr>)
          else (None,
                w\<lparr>neigh_table := (neigh_table w)(link_Index link := neigh_table w (link_Index link) @
                     [\<lparr>neigh_LinkIndex = link_Index link, neigh_State = NUD_PERMANENT,
                       neigh_IP = nodeIP, neigh_HardwareAddr = [0, 0, 0, 0, 0, 0]\<rparr>]),
                  router_routes := (router_routes w)(''r0'' := router_routes w ''r0'' @
                     [\<lparr>Network = IPNet_String net nodePodCIDR, Nexthop = IP_String net nodeVtepIP,
                       Interface_ = ''to_vxlan0''\<rparr>])\<rparr>))"
  by (simp add: AddNode_def NeighAppend_def CreateRouterRouteByID_def Let_def
      split: option.splits)

text \<open>
  C4. The neighbor entry that \<^verbatim>\<open>AddNode\<close> appends on the VXLAN interface is in state
  \<^verbatim>\<open>NUD_PERMANENT\<close> and maps the IP of the peer node to the placeholder link-layer address
  00:00:00:00:00:00. It is appended whenever the interface is found and the kernel accepts
  the entry, so whenever \<^verbatim>\<open>AddNode\<close> returns no error, and \<^verbatim>\<open>AddNode\<close> changes the
  neighbor table in no other way.
\<close>

theorem AddNode_permanent_entry:
  "(LinkByName w vxlanIfName = Some link \<and>
      \<not> NeighAppend_err w \<lparr>neigh_LinkIndex = link_Index link, neigh_State = NUD_PERMANENT,
                             neigh_IP = nodeIP, neigh_HardwareAddr = [0, 0, 0, 0, 0, 0]\<rparr> \<longrightarrow>
      neigh_table (snd (AddNode net vxlanIfName nodeIP nodePodCIDR nodeVtepIP w)) (link_Index link) =
        neigh_table w (link_Index link) @
          [\<lparr>neigh_LinkIndex = link_Index link, neigh_State = NUD_PERMANENT,
            neigh_IP = nodeIP, neigh_HardwareAddr = [0, 0, 0, 0, 0, 0]\<rparr>]) \<and>
   (fst (AddNode net vxlanIfName nodeIP nodePodCIDR nodeVtepIP w) = None \<longrightarrow>
      (\<exists>link'. LinkByName w vxlanIfName = Some link' \<and>
         neigh_table (snd (AddNode net vxlanIfName nodeIP nodePodCIDR nodeVtepIP w))
             (link_Index link') =
           neigh_table w (link_Index link') @
             [\<lparr>neigh_LinkIndex = link_Index link', neigh_State = NUD_PERMANENT,
               neigh_IP = nodeIP, neigh_HardwareAddr = [0, 0, 0, 0, 0, 0]\<rparr>])) \<and>
   (neigh_table (snd (AddNode net vxlanIfName nodeIP nodePodCIDR nodeVtepIP w)) i =
      neigh_table w i \<or>
    (\<exists>link'. LinkByName w vxlanIfName = Some link' \<and> i = link_Index link' \<and>
       neigh_table (snd (AddNode net vxlanIfName nodeIP nodePodCIDR nodeVtepIP w)) i =
         neigh_table w i @
           [\<lparr>neigh_LinkIndex = link_Index link', neigh_State = NUD_PERMANENT,
             neigh_IP = nodeIP, neigh_HardwareAddr = [0, 0, 0, 0, 0, 0]\<rparr>]))"
  by (auto simp: AddNode_unfold split: option.splits)

theorem AddNode_permanent_entry_witness:
  "neigh_table (snd (AddNode example_net ''vxlan0'' (IPv4 192 168 1 12)
       \<lparr>IP = [10, 10, 2, 0], Mask = [255, 255, 255, 0]\<rparr> [10, 18, 0, 2] example_world)) 7 =
     [\<lparr>neigh_LinkIndex = 7, neigh_State = 128, neigh_IP = IPv4 192 168 1 12,
       neigh_HardwareAddr = [0, 0, 0, 0, 0, 0]\<rparr>] \<and>
   fst (AddNode example_net ''vxlan0'' (IPv4 192 168 1 12)
       \<lparr>IP = [10, 10, 2, 0], Mask = [255, 255, 255, 0]\<rparr> [10, 18, 0, 2] example_world) = None"
proof -
  let ?run = "AddNode example_net ''vxlan0'' (IPv4 192 168 1 12)
       \<lparr>IP = [10, 10, 2, 0], Mask = [255, 255, 255, 0]\<rparr> [10, 18, 0, 2] example_world"
  let ?e = "\<lparr>neigh_LinkIndex = link_Index example_vxlan0, neigh_State = NUD_PERMANENT,
            neigh_IP = IPv4 192 168 1 12, neigh_HardwareAddr = [0, 0, 0, 0, 0, 0]\<rparr>"
  have "neigh_table (snd ?run) (link_Index example_vxlan0) =
      neigh_table example_world (link_Index example_vxlan0) @ [?e]"
    by (rule AddNode_permanent_entry
          [where w = example_world and vxlanIfName = "''vxlan0''" and link = example_vxlan0
             and nodeIP = "IPv4 192 168 1 12" and net = example_net,
           THEN conjunct1, THEN mp])
      (simp add: example_world_def)
  then have a: "neigh_table (snd ?run) 7 =
      [\<lparr>neigh_LinkIndex = 7, neigh_State = 128, neigh_IP = IPv4 192 168 1 12,
        neigh_HardwareAddr = [0, 0, 0, 0, 0, 0]\<rparr>]"
    by (simp add: example_vxlan0_def example_world_def NUD_PERMANENT_def)
  have b: "fst ?run = None"
    by (simp add: AddNode_unfold example_world_def)
  from a b show ?thesis by simp
qed

lemma AddNode_None:
  assumes "AddNode net vxlanIfName nodeIP nodePodCIDR nodeVtepIP w = (None, w')"
    and "LinkByName w vxlanIfName = Some link"
  shows "w' = w\<lparr>neigh_table := (neigh_table w)(link_Index link := neigh_table w (link_Index link) @
                     [\<lparr>neigh_LinkIndex = link_Index link, neigh_State = NUD_PERMANENT,
                       neigh_IP = nodeIP, neigh_HardwareAddr = [0, 0, 0, 0, 0, 0]\<rparr>]),
                  router_routes := (router_routes w)(''r0'' := router_routes w ''r0'' @
                     [\<lparr>Network = IPNet_String net nodePodCIDR, Nexthop = IP_String net nodeVtepIP,
                       Interface_ = ''to_vxlan0''\<rparr>])\<rparr>"
  using assms by (auto simp: AddNode_unfold split: if_splits)

lemma AddNode_accepts:
  assumes "LinkByName w vxlanIfName = Some link"
    and "\<forall>neigh. \<not> NeighAppend_err w neigh"
    and "\<forall>rname network nexthop route. \<not> CreateRouterRouteByID_err w rname network nexthop route"
  shows "fst (AddNode net vxlanIfName nodeIP nodePodCIDR nodeVtepIP w) = None"
  using assms by (simp add: AddNode_unfold)

lemma nodes_loop_None:
  "nodes_loop net conf nodes w = (None, w') \<Longrightarrow>
   LinkByName w (conf_vxlanIfName conf) = Some link \<Longrightarrow>
   LinkByName w' = LinkByName w \<and>
   neigh_table w' = (neigh_table w)(link_Index link := neigh_table w (link_Index link) @
     map (\<lambda>n. \<lparr>neigh_LinkIndex = link_Index link, neigh_State = NUD_PERMANENT,
               neigh_IP = internal_ip_loop net (node_Addresses n),
               neigh_HardwareAddr = [0, 0, 0, 0, 0, 0]\<rparr>)
       (filter (\<lambda>n. HasPrefix (node_Name n) ''worker'' \<and> node_Name n \<noteq> conf_nodeName conf) nodes)) \<and>
   (\<exists>new. router_routes w' = (router_routes w)(''r0'' := router_routes w ''r0'' @ new) \<and>
      list_all2 (\<lambda>n r. \<exists>ip cidr vtep.
           ParseCIDR net (node_PodCIDR n) = Some (ip, cidr) \<and>
           CalcNodeVtepIPNet n (conf_vtepCIDR conf) = Inr vtep \<and>
           r = \<lparr>Network = IPNet_String net cidr, Nexthop = IP_String net (IP vtep),
                Interface_ = ''to_vxlan0''\<rparr>)
        (filter (\<lambda>n. HasPrefix (node_Name n) ''worker'' \<and> node_Name n \<noteq> conf_nodeName conf) nodes)
        new)"
proof (induction nodes arbitrary: w)
  case Nil
  then show ?case by (auto simp: fun_eq_iff)
next
  case (Cons node rest)
  let ?P = "\<lambda>n. HasPrefix (node_Name n) ''worker'' \<and> node_Name n \<noteq> conf_nodeName conf"
  show ?case
  proof (cases "?P node")
    case False
    then have f: "filter ?P (node # rest) = filter ?P rest" by simp
    from False Cons.prems have "nodes_loop net conf rest w = (None, w')" by auto
    from Cons.IH [OF this Cons.prems(2)] show ?thesis unfolding f .
  next
    case True
    let ?ip = "internal_ip_loop net (node_Addresses node)"
    from True Cons.prems(1) obtain ip cidr where
      p: "ParseCIDR net (node_PodCIDR node) = Some (ip, cidr)"
      by (cases "ParseCIDR net (node_PodCIDR node)") (auto simp: Let_def)
    from True Cons.prems(1) p obtain vtep where
      v: "CalcNodeVtepIPNet node (conf_vtepCIDR conf) = Inr vtep"
      by (cases "CalcNodeVtepIPNet node (conf_vtepCIDR conf)") (auto simp: Let_def)
    obtain r w1 where
      a: "AddNode net (conf_vxlanIfName conf) ?ip cidr (IP vtep) w = (r, w1)"
      by (cases "AddNode net (conf_vxlanIfName conf) ?ip cidr (IP vtep) w") blast
    from True Cons.prems(1) p v a have r: "r = None"
      and l: "nodes_loop net conf rest w1 = (None, w')"
      by (cases r; simp add: Let_def)+
    let ?e = "\<lparr>neigh_LinkIndex = link_Index link, neigh_State = NUD_PERMANENT,
               neigh_IP = ?ip, neigh_HardwareAddr = [0, 0, 0, 0, 0, 0]\<rparr>"
    let ?rt = "\<lparr>Network = IPNet_String net cidr, Nexthop = IP_String net (IP vtep),
                Interface_ = ''to_vxlan0''\<rparr>"
    from a r have "AddNode net (conf_vxlanIfName conf) ?ip cidr (IP vtep) w = (None, w1)" by simp
    from AddNode_None [OF this Cons.prems(2)] have w1:
      "LinkByName w1 = LinkByName w"
      "neigh_table w1 = (neigh_table w)(link_Index link := neigh_table w (link_Index link) @ [?e])"
      "router_routes w1 = (router_routes w)(''r0'' := router_routes w ''r0'' @ [?rt])"
      by simp_all
    from w1(1) Cons.prems(2) have "LinkByName w1 (conf_vxlanIfName conf) = Some link" by simp
    from Cons.IH [OF l this] obtain new where ih:
      "LinkByName w' = LinkByName w1"
      "neigh_table w' = (neigh_table w1)(link_Index link := neigh_table w1 (link_Index link) @
         map (\<lambda>n. \<lparr>neigh_LinkIndex = link_Index link, neigh_State = NUD_PERMANENT,
               neigh_IP = internal_ip_loop net (node_Addresses n),
               neigh_HardwareAddr = [0, 0, 0, 0, 0, 0]\<rparr>) (filter ?P rest))"
      "router_routes w' = (router_routes w1)(''r0'' := router_routes w1 ''r0'' @ new)"
      "list_all2 (\<lambda>n r. \<exists>ip cidr vtep.
           ParseCIDR net (node_PodCIDR n) = Some (ip, cidr) \<and>
           CalcNodeVtepIPNet n (conf_vtepCIDR conf) = Inr vtep \<and>
           r = \<lparr>Network = IPNet_String net cidr, Nexthop = IP_String net (IP vtep),
                Interface_ = ''to_vxlan0''\<rparr>) (filter ?P rest) new"
      by blast
    have "router_routes w' = (router_routes w)(''r0'' := router_routes w ''r0'' @ (?rt # new))"
      using ih(3) w1(3) by simp
    moreover have "list_all2 (\<lambda>n r. \<exists>ip cidr vtep.
           ParseCIDR net (node_PodCIDR n) = Some (ip, cidr) \<and>
           CalcNodeVtepIPNet n (conf_vtepCIDR conf) = Inr vtep \<and>
           r = \<lparr>Network = IPNet_String net cidr, Nexthop = IP_String net (IP vtep),
                Interface_ = ''to_vxlan0''\<rparr>) (filter ?P (node # rest)) (?rt # new)"
      using True ih(4) p v by simp
    ultimately have "\<exists>new. router_routes w' = (router_routes w)(''r0'' := router_routes w ''r0'' @ new) \<and>
      list_all2 (\<lambda>n r. \<exists>ip cidr vtep.
           ParseCIDR net (node_PodCIDR n) = Some (ip, cidr) \<and>
           CalcNodeVtepIPNet n (conf_vtepCIDR conf) = Inr vtep \<and>
           r = \<lparr>Network = IPNet_String net cidr, Nexthop = IP_String net (IP vtep),
                Interface_ = ''to_vxlan0''\<rparr>) (filter ?P (node # rest)) new"
      by blast
    moreover have "LinkByName w' = LinkByName w" using ih(1) w1(1) by simp
    moreover have "neigh_table w' = (neigh_table w)(link_Index link := neigh_table w (link_Index link) @
         map (\<lambda>n. \<lparr>neigh_LinkIndex = link_Index link, neigh_State = NUD_PERMANENT,
               neigh_IP = internal_ip_loop net (node_Addresses n),
               neigh_HardwareAddr = [0, 0, 0, 0, 0, 0]\<rparr>) (filter ?P (node # rest)))"
      using True ih(2) w1(2) by simp
    ultimately show ?thesis by blast
  qed
qed

lemma nodes_loop_accepts:
  "LinkByName w (conf_vxlanIfName conf) = Some link \<Longrightarrow>
   \<forall>neigh. \<not> NeighAppend_err w neigh \<Longrightarrow>
   \<forall>rname network nexthop route. \<not> CreateRouterRouteByID_err w rname network nexthop route \<Longrightarrow>
   \<forall>n \<in> set nodes. HasPrefix (node_Name n) ''worker'' \<and> node_Name n \<noteq> conf_nodeName conf \<longrightarrow>
      ParseCIDR net (node_PodCIDR n) \<noteq> None \<and>
      (\<exists>vtep. CalcNodeVtepIPNet n (conf_vtepCIDR conf) = Inr vtep) \<Longrightarrow>
   fst (nodes_loop net conf nodes w) = None"
proof (induction nodes arbitrary: w)
  case Nil
  then show ?case by simp
next
  case (Cons node rest)
  let ?P = "\<lambda>n. HasPrefix (node_Name n) ''worker'' \<and> node_Name n \<noteq> conf_nodeName conf"
  from Cons.prems(4) have rest: "\<forall>n \<in> set rest. ?P n \<longrightarrow>
      ParseCIDR net (node_PodCIDR n) \<noteq> None \<and>
      (\<exists>vtep. CalcNodeVtepIPNet n (conf_vtepCIDR conf) = Inr vtep)" by simp
  show ?case
  proof (cases "?P node")
    case False
    with Cons.IH [OF Cons.prems(1,2,3) rest] show ?thesis by auto
  next
    case True
    let ?ip = "internal_ip_loop net (node_Addresses node)"
    from True Cons.prems(4) obtain ip cidr vtep where
      p: "ParseCIDR net (node_PodCIDR node) = Some (ip, cidr)"
      and v: "CalcNodeVtepIPNet node (conf_vtepCIDR conf) = Inr vtep"
      by auto
    obtain r w1 where
      a: "AddNode net (conf_vxlanIfName conf) ?ip cidr (IP vtep) w = (r, w1)"
      by (cases "AddNode net (conf_vxlanIfName conf) ?ip cidr (IP vtep) w") blast
    from AddNode_accepts [OF Cons.prems(1,2,3), of net ?ip cidr "IP vtep"] a
    have r: "r = None" by simp
    with a have "AddNode net (conf_vxlanIfName conf) ?ip cidr (IP vtep) w = (None, w1)" by simp
    from AddNode_None [OF this Cons.prems(1)] Cons.prems(1,2,3) have
      "LinkByName w1 (conf_vxlanIfName conf) = Some link"
      "\<forall>neigh. \<not> NeighAppend_err w1 neigh"
      "\<forall>rname network nexthop route. \<not> CreateRouterRouteByID_err w1 rname network nexthop route"
      by simp_all
    from Cons.IH [OF this rest] have "fst (nodes_loop net conf rest w1) = None" .
    with True p v a r show ?thesis by (simp add: Let_def)
  qed
qed

text \<open>
  C3, as stated: every cluster node other than the local one gets one FDB entry and one
  route. \<^verbatim>\<open>addOtherNodes\<close> skips every node whose name does not start with \<open>worker\<close>: in a
  cluster of the nodes master and worker1, on worker1, it returns without error and has
  issued no entry and no route, though master is a node other than the local one.
\<close>

theorem addOtherNodes_master_counterexample:
  "fst (addOtherNodes example_net example_conf
         (example_world\<lparr>NodesList := Some [example_master, example_worker1]\<rparr>)) = None \<and>
   neigh_table (snd (addOtherNodes example_net example_conf
         (example_world\<lparr>NodesList := Some [example_master, example_worker1]\<rparr>))) =
     neigh_table example_world \<and>
   router_routes (snd (addOtherNodes example_net example_conf
         (example_world\<lparr>NodesList := Some [example_master, example_worker1]\<rparr>))) =
     router_routes example_world \<and>
   node_Name example_master \<noteq> conf_nodeName example_conf"
  by (simp add: addOtherNodes_def HasPrefix_def example_master_def example_worker1_def
      example_conf_def)

text \<open>
  C3, amended. Let the peers be the nodes of the cluster list whose name starts with
  \<open>worker\<close> and differs from the name of the local node, in the order of the list. On a
  node whose router has the name \<open>r0\<close> (the default of the configuration), when
  \<^verbatim>\<open>addOtherNodes\<close> returns without error it has appended to the neighbor table of the VXLAN
  interface exactly one entry per peer (permanent, the internal IP of the peer, the
  placeholder address) and to the routes of the router of the node exactly one route per
  peer (network: the pod CIDR of the peer; next hop: the VTEP IP of the peer; interface:
  the port \<open>to_vxlan0\<close> of the router), and has changed no other neighbor table and no other
  router: nothing is issued for the local node or for a node not named \<open>worker...\<close>. It
  returns without error when the VXLAN interface is found, the kernel and the router accept
  every call, and the pod CIDR of every peer parses and its VTEP address is derived.
  Nothing is said here of a node whose router has another name: \<^verbatim>\<open>AddNode\<close> writes the
  name \<open>r0\<close> where the rest of the program reads \<^verbatim>\<open>conf.routerName\<close>.
\<close>

theorem addOtherNodes_one_entry_per_peer:
  "(conf_routerName conf = ''r0'' \<and>
      NodesList w = Some nodes \<and> LinkByName w (conf_vxlanIfName conf) = Some link \<and>
      addOtherNodes net conf w = (None, w') \<longrightarrow>
      neigh_table w' (link_Index link) = neigh_table w (link_Index link) @
        map (\<lambda>n. \<lparr>neigh_LinkIndex = link_Index link, neigh_State = NUD_PERMANENT,
                  neigh_IP = internal_ip_loop net (node_Addresses n),
                  neigh_HardwareAddr = [0, 0, 0, 0, 0, 0]\<rparr>)
          (filter (\<lambda>n. HasPrefix (node_Name n) ''worker'' \<and> node_Name n \<noteq> conf_nodeName conf)
             nodes) \<and>
      (\<forall>i. i \<noteq> link_Index link \<longrightarrow> neigh_table w' i = neigh_table w i) \<and>
      (\<exists>new. router_routes w' (conf_routerName conf) =
           router_routes w (conf_routerName conf) @ new \<and>
         list_all2 (\<lambda>n r. \<exists>ip cidr vtep.
              ParseCIDR net (node_PodCIDR n) = Some (ip, cidr) \<and>
              CalcNodeVtepIPNet n (conf_vtepCIDR conf) = Inr vtep \<and>
              r = \<lparr>Network = IPNet_String net cidr, Nexthop = IP_String net (IP vtep),
                   Interface_ = ''to_vxlan0''\<rparr>)
           (filter (\<lambda>n. HasPrefix (node_Name n) ''worker'' \<and> node_Name n \<noteq> conf_nodeName conf)
              nodes)
           new) \<and>
      (\<forall>rname. rname \<noteq> conf_routerName conf \<longrightarrow>
         router_routes w' rname = router_routes w rname)) \<and>
   (NodesList w = Some nodes \<and> LinkByName w (conf_vxlanIfName conf) = Some link \<and>
      (\<forall>neigh. \<not> NeighAppend_err w neigh) \<and>
      (\<forall>rname network nexthop route.
         \<not> CreateRouterRouteByID_err w rname network nexthop route) \<and>
      (\<forall>n \<in> set nodes.
         HasPrefix (node_Name n) ''worker'' \<and> node_Name n \<noteq> conf_nodeName conf \<longrightarrow>
         ParseCIDR net (node_PodCIDR n) \<noteq> None \<and>
         (\<exists>vtep. CalcNodeVtepIPNet n (conf_vtepCIDR conf) = Inr vtep)) \<longrightarrow>
      fst (addOtherNodes net conf w) = None)"
proof (rule conjI; rule impI)
  let ?P = "\<lambda>n. HasPrefix (node_Name n) ''worker'' \<and> node_Name n \<noteq> conf_nodeName conf"
  assume a: "conf_routerName conf = ''r0'' \<and>
      NodesList w = Some nodes \<and> LinkByName w (conf_vxlanIfName conf) = Some link \<and>
      addOtherNodes net conf w = (None, w')"
  then have rn: "conf_routerName conf = ''r0''" by simp
  from a have "nodes_loop net conf nodes w = (None, w')" by (auto simp: addOtherNodes_def)
  from nodes_loop_None [OF this] a obtain new where r:
    "neigh_table w' = (neigh_table w)(link_Index link := neigh_table w (link_Index link) @
       map (\<lambda>n. \<lparr>neigh_LinkIndex = link_Index link, neigh_State = NUD_PERMANENT,
                 neigh_IP = internal_ip_loop net (node_Addresses n),
                 neigh_HardwareAddr = [0, 0, 0, 0, 0, 0]\<rparr>) (filter ?P nodes))"
    "router_routes w' = (router_routes w)(''r0'' := router_routes w ''r0'' @ new)"
    "list_all2 (\<lambda>n r. \<exists>ip cidr vtep.
              ParseCIDR net (node_PodCIDR n) = Some (ip, cidr) \<and>
              CalcNodeVtepIPNet n (conf_vtepCIDR conf) = Inr vtep \<and>
              r = \<lparr>Network = IPNet_String net cidr, Nexthop = IP_String net (IP vtep),
                   Interface_ = ''to_vxlan0''\<rparr>) (filter ?P nodes) new"
    by blast
  have n1: "neigh_table w' (link_Index link) = neigh_table w (link_Index link) @
       map (\<lambda>n. \<lparr>neigh_LinkIndex = link_Index link, neigh_State = NUD_PERMANENT,
                 neigh_IP = internal_ip_loop net (node_Addresses n),
                 neigh_HardwareAddr = [0, 0, 0, 0, 0, 0]\<rparr>) (filter ?P nodes)"
    by (simp add: r(1))
  have n2: "\<forall>i. i \<noteq> link_Index link \<longrightarrow> neigh_table w' i = neigh_table w i"
    by (simp add: r(1))
  have r1: "router_routes w' (conf_routerName conf) =
      router_routes w (conf_routerName conf) @ new"
    by (simp add: r(2) rn)
  have r2: "\<forall>rname. rname \<noteq> conf_routerName conf \<longrightarrow>
      router_routes w' rname = router_routes w rname"
    by (simp add: r(2) rn)
  from n1 n2 r1 r(3) r2 show
    "neigh_table w' (link_Index link) = neigh_table w (link_Index link) @
        map (\<lambda>n. \<lparr>neigh_LinkIndex = link_Index link, neigh_State = NUD_PERMANENT,
                  neigh_IP = internal_ip_loop net (node_Addresses n),
                  neigh_HardwareAddr = [0, 0, 0, 0, 0, 0]\<rparr>) (filter ?P nodes) \<and>
      (\<forall>i. i \<noteq> link_Index link \<longrightarrow> neigh_table w' i = neigh_table w i) \<and>
      (\<exists>new. router_routes w' (conf_routerName conf) =
           router_routes w (conf_routerName conf) @ new \<and>
         list_all2 (\<lambda>n r. \<exists>ip cidr vtep.
              ParseCIDR net (node_PodCIDR n) = Some (ip, cidr) \<and>
              CalcNodeVtepIPNet n (conf_vtepCIDR conf) = Inr vtep \<and>
              r = \<lparr>Network = IPNet_String net cidr, Nexthop = IP_String net (IP vtep),
                   Interface_ = ''to_vxlan0''\<rparr>) (filter ?P nodes) new) \<and>
      (\<forall>rname. rname \<noteq> conf_routerName conf \<longrightarrow>
         router_routes w' rname = router_routes w rname)"
    by blast
next
  assume a: "NodesList w = Some nodes \<and> LinkByName w (conf_vxlanIfName conf) = Some link \<and>
      (\<forall>neigh. \<not> NeighAppend_err w neigh) \<and>
      (\<forall>rname network nexthop route.
         \<not> CreateRouterRouteByID_err w rname network nexthop route) \<and>
      (\<forall>n \<in> set nodes.
         HasPrefix (node_Name n) ''worker'' \<and> node_Name n \<noteq> conf_nodeName conf \<longrightarrow>
         ParseCIDR net (node_PodCIDR n) \<noteq> None \<and>
         (\<exists>vtep. CalcNodeVtepIPNet n (conf_vtepCIDR conf) = Inr vtep))"
  then have "fst (nodes_loop net conf nodes w) = None"
    by (intro nodes_loop_accepts [where link = link]) simp_all
  with a show "fst (addOtherNodes net conf w) = None" by (auto simp: addOtherNodes_def)
qed

theorem addOtherNodes_one_entry_per_peer_witness:
  "fst (addOtherNodes example_net example_conf example_world) = None \<and>
   neigh_table (snd (addOtherNodes example_net example_conf example_world)) 7 =
     [\<lparr>neigh_LinkIndex = 7, neigh_State = 128, neigh_IP = IPv4 192 168 1 12,
       neigh_HardwareAddr = [0, 0, 0, 0, 0, 0]\<rparr>] \<and>
   router_routes (snd (addOtherNodes example_net example_conf example_world))
       (conf_routerName example_conf) =
     [\<lparr>Network = ''10.10.2.0/24'', Nexthop = ''10.18.0.2'', Interface_ = ''to_vxlan0''\<rparr>]"
proof -
  let ?nodes = "[example_master, example_worker1, example_worker2]"
  let ?P = "\<lambda>n. HasPrefix (node_Name n) ''worker'' \<and> node_Name n \<noteq> conf_nodeName example_conf"
  let ?vtep = "\<lparr>IP = [10, 18, 0, 2], Mask = [255, 255, 0, 0]\<rparr>"
  let ?cidr = "\<lparr>IP = [10, 10, 2, 0], Mask = [255, 255, 255, 0]\<rparr>"
  have v2: "CalcNodeVtepIPNet example_worker2 (conf_vtepCIDR example_conf) = Inr ?vtep"
    by code_simp
  have p2: "ParseCIDR example_net (node_PodCIDR example_worker2) = Some (IPv4 10 10 2 0, ?cidr)"
    by (simp add: example_net_def example_worker2_def)
  have s1: "IPNet_String example_net ?cidr = ''10.10.2.0/24''" by code_simp
  have s2: "IP_String example_net [10, 18, 0, 2] = ''10.18.0.2''" by code_simp
  have ip2: "internal_ip_loop example_net (node_Addresses example_worker2) = IPv4 192 168 1 12"
    by (simp add: example_worker2_def example_net_def NodeInternalIP_def)
  have f: "filter ?P ?nodes = [example_worker2]"
    by (simp add: HasPrefix_def example_master_def example_worker1_def example_worker2_def
        example_conf_def)
  have w: "NodesList example_world = Some ?nodes"
    "LinkByName example_world (conf_vxlanIfName example_conf) = Some example_vxlan0"
    "\<forall>neigh. \<not> NeighAppend_err example_world neigh"
    "\<forall>rname network nexthop route.
       \<not> CreateRouterRouteByID_err example_world rname network nexthop route"
    "neigh_table example_world 7 = []"
    "router_routes example_world (conf_routerName example_conf) = []"
    "conf_routerName example_conf = ''r0''"
    by (simp_all add: example_world_def example_conf_def)
  have peers: "\<forall>n \<in> set ?nodes. ?P n \<longrightarrow>
      ParseCIDR example_net (node_PodCIDR n) \<noteq> None \<and>
      (\<exists>vtep. CalcNodeVtepIPNet n (conf_vtepCIDR example_conf) = Inr vtep)"
  proof
    fix n assume "n \<in> set ?nodes"
    then have "n \<in> set (filter ?P ?nodes) \<or> \<not> ?P n" by auto
    then show "?P n \<longrightarrow> ParseCIDR example_net (node_PodCIDR n) \<noteq> None \<and>
      (\<exists>vtep. CalcNodeVtepIPNet n (conf_vtepCIDR example_conf) = Inr vtep)"
      unfolding f using v2 p2 by auto
  qed
  have a: "fst (addOtherNodes example_net example_conf example_world) = None"
    by (rule addOtherNodes_one_entry_per_peer
          [where w = example_world and nodes = ?nodes and conf = example_conf
             and link = example_vxlan0 and net = example_net,
           THEN conjunct2, THEN mp])
      (intro conjI w peers)
  then obtain w' where run: "addOtherNodes example_net example_conf example_world = (None, w')"
    by (cases "addOtherNodes example_net example_conf example_world") simp
  note A = addOtherNodes_one_entry_per_peer
          [where w = example_world and nodes = ?nodes and conf = example_conf
             and link = example_vxlan0 and net = example_net and w' = w',
           THEN conjunct1, THEN mp, OF conjI [OF w(7) conjI [OF w(1) conjI [OF w(2) run]]]]
  from A have "neigh_table w' (link_Index example_vxlan0) =
      neigh_table example_world (link_Index example_vxlan0) @
        map (\<lambda>n. \<lparr>neigh_LinkIndex = link_Index example_vxlan0, neigh_State = NUD_PERMANENT,
                  neigh_IP = internal_ip_loop example_net (node_Addresses n),
                  neigh_HardwareAddr = [0, 0, 0, 0, 0, 0]\<rparr>) (filter ?P ?nodes)"
    by (rule conjunct1)
  then have b: "neigh_table w' 7 =
      [\<lparr>neigh_LinkIndex = 7, neigh_State = 128, neigh_IP = IPv4 192 168 1 12,
        neigh_HardwareAddr = [0, 0, 0, 0, 0, 0]\<rparr>]"
    unfolding f by (simp add: example_vxlan0_def w(5) ip2 NUD_PERMANENT_def)
  from A obtain new where n:
    "router_routes w' (conf_routerName example_conf) =
       router_routes example_world (conf_routerName example_conf) @ new"
    "list_all2 (\<lambda>n r. \<exists>ip cidr vtep.
              ParseCIDR example_net (node_PodCIDR n) = Some (ip, cidr) \<and>
              CalcNodeVtepIPNet n (conf_vtepCIDR example_conf) = Inr vtep \<and>
              r = \<lparr>Network = IPNet_String example_net cidr,
                   Nexthop = IP_String example_net (IP vtep),
                   Interface_ = ''to_vxlan0''\<rparr>) (filter ?P ?nodes) new"
    by blast
  from n(2) have "new = [\<lparr>Network = IPNet_String example_net ?cidr,
                   Nexthop = IP_String example_net (IP ?vtep),
                   Interface_ = ''to_vxlan0''\<rparr>]"
    unfolding f by (auto simp: list_all2_Cons1 p2 v2)
  with n(1) have c: "router_routes w' (conf_routerName example_conf) =
      [\<lparr>Network = ''10.10.2.0/24'', Nexthop = ''10.18.0.2'', Interface_ = ''to_vxlan0''\<rparr>]"
    by (simp add: w(6) s1 s2)
  from a b c run show ?thesis by simp
qed

section \<open>The CNI configuration\<close>

lemma CreateCNIConfFile_Inr:
  assumes "CreateCNIConfFile net conf nodeInfo w = Inr c"
  shows "\<exists>rangeStart rangeEnd.
           NextIP (IP (ni_podCIDR nodeInfo)) = Inr rangeStart \<and>
           PrevIP (IP (gw_IPNet (ni_podGwInfo nodeInfo))) = Inr rangeEnd \<and>
           ipam_rangeStart c = IP_String net rangeStart \<and>
           ipam_rangeEnd c = IP_String net rangeEnd \<and>
           ipam_gateway c = IP_String net (IP (gw_IPNet (ni_podGwInfo nodeInfo))) \<and>
           ipam_subnet c = IPNet_String net (ni_podCIDR nodeInfo)"
  using assms
  by (auto simp: CreateCNIConfFile_def Let_def split: if_splits sum.splits)

lemma CalcNodePodDefaultGateway_slash24:
  "CalcNodePodDefaultGateway \<lparr>IP = [10, 10, N, 0], Mask = [255, 255, 255, 0]\<rparr> =
     Inr \<lparr>gw_IPNet = \<lparr>IP = [10, 10, N, 254], Mask = [255, 255, 255, 0]\<rparr>, gw_MAC = []\<rparr>"
proof -
  let ?c = "\<lparr>IP = [10, 10, N, 0], Mask = [255, 255, 255, 0]\<rparr>"
  have m: "(- 256 :: byte) = 0" by simp
  have z: "N OR (- 256 :: byte) = N" by (subst m) simp
  have b: "map2 (\<lambda>a m. a OR NOT m) (IP ?c) (Mask ?c) = [10, 10, N, 255]"
    by (simp add: z)
  from CalcNodePodDefaultGateway_v4 [of ?c] obtain gwIP where r:
    "CalcNodePodDefaultGateway ?c =
       Inr \<lparr>gw_IPNet = \<lparr>IP = gwIP, Mask = Mask ?c\<rparr>, gw_MAC = []\<rparr>"
    "length gwIP = 4"
    "SetBytes gwIP = \<bar>SetBytes (map2 (\<lambda>a m. a OR NOT m) (IP ?c) (Mask ?c)) - 1\<bar>"
    by auto
  from r(3) have "SetBytes gwIP = \<bar>SetBytes [10, 10, N, 255] - 1\<bar>" by (simp only: b)
  then have "SetBytes gwIP = SetBytes [10, 10, N, 254]" by (simp add: SetBytes_def)
  with r(2) have "gwIP = [10, 10, N, 254]" by (intro SetBytes_inj) simp_all
  with r(1) show ?thesis by simp
qed

text \<open>
  C7, as stated: the range ends at the pod gateway minus one. It fails where the pod
  gateway is 0.0.0.0, which is the gateway derived for the pod CIDR 0.0.0.0/31:
  \<^verbatim>\<open>PrevIP\<close> of 0.0.0.0 is 0.0.0.1, so the file gives the range from 0.0.0.1 to 0.0.0.1,
  which ends above the gateway.
\<close>

theorem CreateCNIConfFile_zero_gateway_counterexample:
  "CalcNodePodDefaultGateway \<lparr>IP = [0, 0, 0, 0], Mask = [255, 255, 255, 254]\<rparr> =
     Inr \<lparr>gw_IPNet = \<lparr>IP = [0, 0, 0, 0], Mask = [255, 255, 255, 254]\<rparr>, gw_MAC = []\<rparr> \<and>
   CreateCNIConfFile example_net example_conf
     (example_nodeInfo\<lparr>ni_podCIDR := \<lparr>IP = [0, 0, 0, 0], Mask = [255, 255, 255, 254]\<rparr>,
        ni_podGwInfo := \<lparr>gw_IPNet = \<lparr>IP = [0, 0, 0, 0], Mask = [255, 255, 255, 254]\<rparr>,
                         gw_MAC = [170, 187, 204, 221, 238, 255]\<rparr>\<rparr>)
     example_world =
     Inr \<lparr>cni_MTU = 1450, cni_vclustercidr = ''10.10.0.0/16'', cni_bridge = ''br0'',
          cni_gateway_ip = ''0.0.0.0'', cni_gateway_mac = ''aa:bb:cc:dd:ee:ff'',
          ipam_subnet = ''0.0.0.0/31'', ipam_rangeStart = ''0.0.0.1'',
          ipam_rangeEnd = ''0.0.0.1'', ipam_gateway = ''0.0.0.0''\<rparr>"
  by code_simp

text \<open>
  C7, amended. For a node whose pod CIDR address and pod gateway address have 4 bytes
  and whose pod gateway is not 0.0.0.0, the configuration that \<^verbatim>\<open>CreateCNIConfFile\<close> writes
  has one IPAM range whose \<open>rangeStart\<close> is the text of the pod CIDR address plus one, whose
  \<open>rangeEnd\<close> is the text of the pod gateway address minus one, and whose \<open>gateway\<close> is the
  text of the pod gateway address of the node (in \<^verbatim>\<open>main\<close>, the one derived by
  \<^verbatim>\<open>CalcNodePodDefaultGateway\<close>); and the file is written when it can be created and
  written and the pod CIDR address is not 255.255.255.255. For the pod CIDR 10.10.N.0/24
  and the gateway derived from it, the range is 10.10.N.1 to 10.10.N.253 with gateway
  10.10.N.254; the witness is the case \<open>N = 1\<close>.
\<close>

theorem CreateCNIConfFile_ipam_range:
  "(length (IP (ni_podCIDR nodeInfo)) = 4 \<and>
      length (IP (gw_IPNet (ni_podGwInfo nodeInfo))) = 4 \<and>
      IP (gw_IPNet (ni_podGwInfo nodeInfo)) \<noteq> [0, 0, 0, 0] \<and>
      CreateCNIConfFile net conf nodeInfo w = Inr c \<longrightarrow>
      (\<exists>rangeStart rangeEnd.
         ipam_rangeStart c = IP_String net rangeStart \<and> length rangeStart = 4 \<and>
         SetBytes rangeStart = SetBytes (IP (ni_podCIDR nodeInfo)) + 1 \<and>
         ipam_rangeEnd c = IP_String net rangeEnd \<and> length rangeEnd = 4 \<and>
         SetBytes rangeEnd = SetBytes (IP (gw_IPNet (ni_podGwInfo nodeInfo))) - 1) \<and>
      ipam_gateway c = IP_String net (IP (gw_IPNet (ni_podGwInfo nodeInfo))) \<and>
      ipam_subnet c = IPNet_String net (ni_podCIDR nodeInfo)) \<and>
   (length (IP (ni_podCIDR nodeInfo)) = 4 \<and>
      length (IP (gw_IPNet (ni_podGwInfo nodeInfo))) = 4 \<and>
      SetBytes (IP (ni_podCIDR nodeInfo)) + 1 < 2 ^ 32 \<and>
      \<not> Create_err w (conf_CNIConfFilePath conf) \<and> \<not> Fprintf_err w \<longrightarrow>
      (\<exists>c'. CreateCNIConfFile net conf nodeInfo w = Inr c')) \<and>
   (ni_podCIDR nodeInfo = \<lparr>IP = [10, 10, N, 0], Mask = [255, 255, 255, 0]\<rparr> \<and>
      CalcNodePodDefaultGateway (ni_podCIDR nodeInfo) = Inr g \<and>
      gw_IPNet (ni_podGwInfo nodeInfo) = gw_IPNet g \<and>
      CreateCNIConfFile net conf nodeInfo w = Inr c \<longrightarrow>
      ipam_rangeStart c = IP_String net [10, 10, N, 1] \<and>
      ipam_rangeEnd c = IP_String net [10, 10, N, 253] \<and>
      ipam_gateway c = IP_String net [10, 10, N, 254])"
proof (intro conjI; rule impI)
  let ?ip = "IP (ni_podCIDR nodeInfo)"
  let ?gw = "IP (gw_IPNet (ni_podGwInfo nodeInfo))"
  assume a: "length ?ip = 4 \<and> length ?gw = 4 \<and> ?gw \<noteq> [0, 0, 0, 0] \<and>
      CreateCNIConfFile net conf nodeInfo w = Inr c"
  then have "CreateCNIConfFile net conf nodeInfo w = Inr c" by simp
  from CreateCNIConfFile_Inr [OF this] obtain rangeStart rangeEnd where r:
    "NextIP ?ip = Inr rangeStart" "PrevIP ?gw = Inr rangeEnd"
    "ipam_rangeStart c = IP_String net rangeStart" "ipam_rangeEnd c = IP_String net rangeEnd"
    "ipam_gateway c = IP_String net ?gw" "ipam_subnet c = IPNet_String net (ni_podCIDR nodeInfo)"
    by blast
  from a have l: "length ?ip = 4" "length ?gw = 4" "?gw \<noteq> [0, 0, 0, 0]" by simp_all
  have "SetBytes ?ip + 1 < 2 ^ 32"
  proof (rule ccontr)
    assume "\<not> SetBytes ?ip + 1 < 2 ^ 32"
    with l(1) have "NextIP ?ip = Inl Panic" by (rule NextIP_v4_overflow)
    with r(1) show False by simp
  qed
  with l(1) r(1) have s: "length rangeStart = 4" "SetBytes rangeStart = SetBytes ?ip + 1"
    using NextIP_v4 [of ?ip] by auto
  from l(2,3) have "1 \<le> SetBytes ?gw" by (rule SetBytes_pos)
  with l(2) r(2) have e: "length rangeEnd = 4" "SetBytes rangeEnd = SetBytes ?gw - 1"
    using PrevIP_v4 [of ?gw] by auto
  from r s e show "(\<exists>rangeStart rangeEnd.
         ipam_rangeStart c = IP_String net rangeStart \<and> length rangeStart = 4 \<and>
         SetBytes rangeStart = SetBytes ?ip + 1 \<and>
         ipam_rangeEnd c = IP_String net rangeEnd \<and> length rangeEnd = 4 \<and>
         SetBytes rangeEnd = SetBytes ?gw - 1) \<and>
      ipam_gateway c = IP_String net ?gw \<and>
      ipam_subnet c = IPNet_String net (ni_podCIDR nodeInfo)"
    by blast
next
  let ?ip = "IP (ni_podCIDR nodeInfo)"
  let ?gw = "IP (gw_IPNet (ni_podGwInfo nodeInfo))"
  assume a: "length ?ip = 4 \<and> length ?gw = 4 \<and> SetBytes ?ip + 1 < 2 ^ 32 \<and>
      \<not> Create_err w (conf_CNIConfFilePath conf) \<and> \<not> Fprintf_err w"
  then obtain rangeStart where "NextIP ?ip = Inr rangeStart"
    using NextIP_v4 [of ?ip] by auto
  moreover from a obtain rangeEnd where "PrevIP ?gw = Inr rangeEnd"
    using PrevIP_v4 [of ?gw] by auto
  ultimately show "\<exists>c'. CreateCNIConfFile net conf nodeInfo w = Inr c'"
    using a by (simp add: CreateCNIConfFile_def Let_def)
next
  assume a: "ni_podCIDR nodeInfo = \<lparr>IP = [10, 10, N, 0], Mask = [255, 255, 255, 0]\<rparr> \<and>
      CalcNodePodDefaultGateway (ni_podCIDR nodeInfo) = Inr g \<and>
      gw_IPNet (ni_podGwInfo nodeInfo) = gw_IPNet g \<and>
      CreateCNIConfFile net conf nodeInfo w = Inr c"
  then have ip: "IP (ni_podCIDR nodeInfo) = [10, 10, N, 0]" by simp
  from a have "CalcNodePodDefaultGateway \<lparr>IP = [10, 10, N, 0], Mask = [255, 255, 255, 0]\<rparr> = Inr g"
    by auto
  then have "g = \<lparr>gw_IPNet = \<lparr>IP = [10, 10, N, 254], Mask = [255, 255, 255, 0]\<rparr>, gw_MAC = []\<rparr>"
    by (simp add: CalcNodePodDefaultGateway_slash24)
  with a have gw: "IP (gw_IPNet (ni_podGwInfo nodeInfo)) = [10, 10, N, 254]" by simp
  from a have "CreateCNIConfFile net conf nodeInfo w = Inr c" by simp
  from CreateCNIConfFile_Inr [OF this] obtain rangeStart rangeEnd where r:
    "NextIP [10, 10, N, 0] = Inr rangeStart" "PrevIP [10, 10, N, 254] = Inr rangeEnd"
    "ipam_rangeStart c = IP_String net rangeStart" "ipam_rangeEnd c = IP_String net rangeEnd"
    "ipam_gateway c = IP_String net [10, 10, N, 254]"
    unfolding ip gw by blast
  have "SetBytes [10, 10, N, 0] + 1 < 2 ^ 32"
    using uint_byte_lt [of N] by (simp add: SetBytes_def)
  with r(1) have "length rangeStart = 4" "SetBytes rangeStart = SetBytes [10, 10, N, 0] + 1"
    using NextIP_v4 [of "[10, 10, N, 0]"] by auto
  then have "length rangeStart = 4" "SetBytes rangeStart = SetBytes [10, 10, N, 1]"
    by (simp_all add: SetBytes_def)
  then have s: "rangeStart = [10, 10, N, 1]" by (intro SetBytes_inj) simp_all
  from r(2) have "length rangeEnd = 4" "SetBytes rangeEnd = \<bar>SetBytes [10, 10, N, 254] - 1\<bar>"
    using PrevIP_v4 [of "[10, 10, N, 254]"] by auto
  then have "length rangeEnd = 4" "SetBytes rangeEnd = SetBytes [10, 10, N, 253]"
    by (simp_all add: SetBytes_def)
  then have e: "rangeEnd = [10, 10, N, 253]" by (intro SetBytes_inj) simp_all
  from r(3,4,5) s e show "ipam_rangeStart c = IP_String net [10, 10, N, 1] \<and>
      ipam_rangeEnd c = IP_String net [10, 10, N, 253] \<and>
      ipam_gateway c = IP_String net [10, 10, N, 254]"
    by simp
qed

theorem CreateCNIConfFile_ipam_range_witness:
  "\<exists>c. CreateCNIConfFile example_net example_conf example_nodeInfo example_world = Inr c \<and>
      ipam_rangeStart c = ''10.10.1.1'' \<and> ipam_rangeEnd c = ''10.10.1.253'' \<and>
      ipam_gateway c = ''10.10.1.254'' \<and> ipam_subnet c = ''10.10.1.0/24'' \<and>
      CalcNodePodDefaultGateway (ni_podCIDR example_nodeInfo) =
        Inr ((ni_podGwInfo example_nodeInfo)\<lparr>gw_MAC := []\<rparr>)"
proof -
  let ?ip = "IP (ni_podCIDR example_nodeInfo)"
  let ?gw = "IP (gw_IPNet (ni_podGwInfo example_nodeInfo))"
  have ip: "?ip = [10, 10, 1, 0]" and gw: "?gw = [10, 10, 1, 254]"
    by (simp_all add: example_nodeInfo_def)
  have h: "length ?ip = 4" "length ?gw = 4" "?gw \<noteq> [0, 0, 0, 0]"
    "SetBytes ?ip + 1 < 2 ^ 32"
    "\<not> Create_err example_world (conf_CNIConfFilePath example_conf)"
    "\<not> Fprintf_err example_world"
    by (simp_all add: ip gw SetBytes_def example_world_def)
  note T = CreateCNIConfFile_ipam_range
      [where nodeInfo = example_nodeInfo and net = example_net and conf = example_conf
         and w = example_world]
  have "\<exists>c'. CreateCNIConfFile example_net example_conf example_nodeInfo example_world = Inr c'"
    by (rule T [THEN conjunct2, THEN conjunct1, THEN mp]) (intro conjI h)
  then obtain c where
    c: "CreateCNIConfFile example_net example_conf example_nodeInfo example_world = Inr c"
    by blast
  from T [where c = c, THEN conjunct1, THEN mp, OF conjI [OF h(1) conjI [OF h(2) conjI [OF h(3) c]]]]
  obtain rangeStart rangeEnd where r:
    "ipam_rangeStart c = IP_String example_net rangeStart" "length rangeStart = 4"
    "SetBytes rangeStart = SetBytes ?ip + 1"
    "ipam_rangeEnd c = IP_String example_net rangeEnd" "length rangeEnd = 4"
    "SetBytes rangeEnd = SetBytes ?gw - 1"
    "ipam_gateway c = IP_String example_net ?gw"
    "ipam_subnet c = IPNet_String example_net (ni_podCIDR example_nodeInfo)"
    by blast
  from r(3) have "SetBytes rangeStart = SetBytes [10, 10, 1, 1]"
    by (simp add: ip SetBytes_def)
  with r(2) have rs: "rangeStart = [10, 10, 1, 1]" by (intro SetBytes_inj) simp_all
  from r(6) have "SetBytes rangeEnd = SetBytes [10, 10, 1, 253]"
    by (simp add: gw SetBytes_def)
  with r(5) have re: "rangeEnd = [10, 10, 1, 253]" by (intro SetBytes_inj) simp_all
  have s: "IP_String example_net [10, 10, 1, 1] = ''10.10.1.1''"
    "IP_String example_net [10, 10, 1, 253] = ''10.10.1.253''"
    "IP_String example_net [10, 10, 1, 254] = ''10.10.1.254''"
    "IPNet_String example_net (ni_podCIDR example_nodeInfo) = ''10.10.1.0/24''"
    by code_simp+
  have g: "CalcNodePodDefaultGateway (ni_podCIDR example_nodeInfo) =
      Inr ((ni_podGwInfo example_nodeInfo)\<lparr>gw_MAC := []\<rparr>)"
    by code_simp
  have e: "ipam_rangeStart c = IP_String example_net [10, 10, 1, 1] \<and>
      ipam_rangeEnd c = IP_String example_net [10, 10, 1, 253] \<and>
      ipam_gateway c = IP_String example_net [10, 10, 1, 254]"
    by (rule T [where c = c and N = 1 and g = "(ni_podGwInfo example_nodeInfo)\<lparr>gw_MAC := []\<rparr>",
          THEN conjunct2, THEN conjunct2, THEN mp])
      (simp add: g c, simp add: example_nodeInfo_def)
  from c r(1,4,7,8) rs re gw s g e show ?thesis by simp
qed

end
